theory Spec2Isabelle
  imports Main
begin

section \<open>CloudFormation parameters\<close>

text \<open>
  The stack of \<^verbatim>\<open>main-stack.ts\<close> declares its inputs as CloudFormation parameters.
  A declaration carries a description, a type, an optional default, an optional list of
  allowed values and an optional pattern. The values arrive as strings at deployment;
  \<^verbatim>\<open>valueAsString\<close>, \<^verbatim>\<open>valueAsNumber\<close> and \<^verbatim>\<open>valueAsList\<close> of the source stand
  for the value a parameter has then, and are embedded as functions of the supplied values:
  the supplied value, else the default. A parameter with neither reads as the empty
  string here; validation reports it as missing.
\<close>

subsection \<open>Patterns\<close>

text \<open>
  The only pattern of the source is the one of \<^verbatim>\<open>alarmEmail\<close>. Patterns are regular
  expressions over character classes (lists of inclusive ranges); a value satisfies a
  pattern when the whole value matches, decided by derivatives.
\<close>

datatype rexp =
    Zero
  | One
  | Atom "(char \<times> char) list"
  | Alt rexp rexp
  | Seq rexp rexp
  | Star rexp

definition in_range :: "char \<Rightarrow> char \<times> char \<Rightarrow> bool" where
  "in_range c r = ((of_char (fst r) :: nat) \<le> of_char c \<and> (of_char c :: nat) \<le> of_char (snd r))"

definition in_class :: "(char \<times> char) list \<Rightarrow> char \<Rightarrow> bool" where
  "in_class rs c = list_ex (in_range c) rs"

fun nullable :: "rexp \<Rightarrow> bool" where
  "nullable Zero = False"
| "nullable One = True"
| "nullable (Atom rs) = False"
| "nullable (Alt r s) = (nullable r \<or> nullable s)"
| "nullable (Seq r s) = (nullable r \<and> nullable s)"
| "nullable (Star r) = True"

definition alt :: "rexp \<Rightarrow> rexp \<Rightarrow> rexp" where
  "alt r s = (if r = Zero then s else if s = Zero then r else Alt r s)"

definition seq :: "rexp \<Rightarrow> rexp \<Rightarrow> rexp" where
  "seq r s = (if r = Zero \<or> s = Zero then Zero else if r = One then s else Seq r s)"

fun deriv :: "char \<Rightarrow> rexp \<Rightarrow> rexp" where
  "deriv c Zero = Zero"
| "deriv c One = Zero"
| "deriv c (Atom rs) = (if in_class rs c then One else Zero)"
| "deriv c (Alt r s) = alt (deriv c r) (deriv c s)"
| "deriv c (Seq r s) =
     (if nullable r then alt (seq (deriv c r) s) (deriv c s) else seq (deriv c r) s)"
| "deriv c (Star r) = seq (deriv c r) (Star r)"

fun matches :: "rexp \<Rightarrow> string \<Rightarrow> bool" where
  "matches r [] = nullable r"
| "matches r (c # cs) = matches (deriv c r) cs"

definition rplus :: "rexp \<Rightarrow> rexp" where
  "rplus r = Seq r (Star r)"

fun rpow :: "nat \<Rightarrow> rexp \<Rightarrow> rexp" where
  "rpow 0 r = One"
| "rpow (Suc n) r = Seq r (rpow n r)"

fun rupto :: "nat \<Rightarrow> rexp \<Rightarrow> rexp" where
  "rupto 0 r = One"
| "rupto (Suc n) r = Alt One (Seq r (rupto n r))"

definition rrange :: "nat \<Rightarrow> nat \<Rightarrow> rexp \<Rightarrow> rexp" where
  "rrange m n r = Seq (rpow m r) (rupto (n - m) r)"

definition single :: "char \<Rightarrow> (char \<times> char) list" where
  "single c = [(c, c)]"

definition alpha :: "(char \<times> char) list" where
  "alpha = [(CHR ''A'', CHR ''Z''), (CHR ''a'', CHR ''z'')]"

definition alnum :: "(char \<times> char) list" where
  "alnum = alpha @ [(CHR ''0'', CHR ''9'')]"

definition word :: "(char \<times> char) list" where
  "word = alnum @ single CHR ''_''"

text \<open>
  \<^verbatim>\<open>\w[-\w.+]*@([A-Za-z0-9][-A-Za-z0-9]+\.)+[A-Za-z]{2,14}\<close>
\<close>

definition alarmEmailPattern :: rexp where
  "alarmEmailPattern =
     Seq (Atom word)
    (Seq (Star (Atom (single CHR ''-'' @ word @ single CHR ''.'' @ single CHR ''+'')))
    (Seq (Atom (single CHR ''@''))
    (Seq (rplus (Seq (Atom alnum)
                (Seq (rplus (Atom (single CHR ''-'' @ alnum))) (Atom (single CHR ''.'')))))
         (rrange 2 14 (Atom alpha)))))"

subsection \<open>Numbers and lists\<close>

text \<open>
  A parameter of type \<^verbatim>\<open>Number\<close> is read as a decimal integer with an optional sign
  (fractions are not modelled); a value that is no number reads as \<open>None\<close>. A list
  parameter is a comma-delimited string, split at every comma: the empty string is the
  list of one empty entry.
\<close>

definition digit_of :: "char \<Rightarrow> nat option" where
  "digit_of c =
     (if in_range c (CHR ''0'', CHR ''9'') then Some (of_char c - of_char CHR ''0'') else None)"

fun digits_value :: "nat \<Rightarrow> string \<Rightarrow> nat option" where
  "digits_value acc [] = Some acc"
| "digits_value acc (c # cs) =
     (case digit_of c of None \<Rightarrow> None | Some d \<Rightarrow> digits_value (10 * acc + d) cs)"

fun number_of_string :: "string \<Rightarrow> int option" where
  "number_of_string [] = None"
| "number_of_string (c # cs) =
     (if c = CHR ''-''
      then (if cs = [] then None else map_option (\<lambda>n. - int n) (digits_value 0 cs))
      else map_option int (digits_value 0 (c # cs)))"

fun split_commas :: "string \<Rightarrow> string \<Rightarrow> string list" where
  "split_commas cur [] = [rev cur]"
| "split_commas cur (c # cs) =
     (if c = CHR '','' then rev cur # split_commas [] cs else split_commas (c # cur) cs)"

definition list_of_string :: "string \<Rightarrow> string list" where
  "list_of_string s = split_commas [] s"

text \<open>
  The identifiers of the two resource types the source uses as parameter types, as in its
  examples \<^verbatim>\<open>vpc-bef13dc7\<close> and \<^verbatim>\<open>subnet-97bfc4cd\<close>: the prefix of the resource
  and hexadecimal digits. That a resource of that id exists in the account is not
  modelled.
\<close>

fun literal :: "string \<Rightarrow> rexp" where
  "literal [] = One"
| "literal (c # cs) = Seq (Atom (single c)) (literal cs)"

definition hex :: "(char \<times> char) list" where
  "hex = [(CHR ''0'', CHR ''9''), (CHR ''a'', CHR ''f'')]"

definition resource_id :: "string \<Rightarrow> rexp" where
  "resource_id prefix = Seq (literal prefix) (rplus (Atom hex))"

definition subnet_ids :: "string \<Rightarrow> bool" where
  "subnet_ids v = list_all (matches (resource_id ''subnet-'')) (list_of_string v)"

definition well_typed :: "string \<Rightarrow> string \<Rightarrow> bool" where
  "well_typed t v =
     (if t = ''Number'' then number_of_string v \<noteq> None
      else if t = ''AWS::EC2::VPC::Id'' then matches (resource_id ''vpc-'') v
      else if t = ''List<AWS::EC2::Subnet::Id>'' then subnet_ids v
      else True)"

subsection \<open>Declarations and values\<close>

record CfnParameterProps =
  description :: string
  type :: string
  default_value :: "string option"
  allowedValues :: "string list option"
  allowedPattern :: "rexp option"

record CfnParameter =
  logicalId :: string
  props :: CfnParameterProps

type_synonym parameter_values = "string \<Rightarrow> string option"

definition valueAsString :: "parameter_values \<Rightarrow> CfnParameter \<Rightarrow> string" where
  "valueAsString vals p =
     (case vals (logicalId p) of
        Some v \<Rightarrow> v
      | None \<Rightarrow> (case default_value (props p) of Some d \<Rightarrow> d | None \<Rightarrow> []))"

definition valueAsNumber :: "parameter_values \<Rightarrow> CfnParameter \<Rightarrow> int option" where
  "valueAsNumber vals p = number_of_string (valueAsString vals p)"

definition valueAsList :: "parameter_values \<Rightarrow> CfnParameter \<Rightarrow> string list" where
  "valueAsList vals p = list_of_string (valueAsString vals p)"

text \<open>
  Modelled from the spec: the validation of a parameter set against the declarations
  (section 4.1 of the spec), which no source file contains; the source only declares the
  parameters and the provisioning backend checks the values. The rules are those of the
  spec that read a property of a declaration: a parameter without a default needs a
  value, an enum value is a member of the allowed values, a pattern-constrained string
  matches its pattern, and a value is of the declared type (a number, a VPC id, a
  comma-delimited list of subnet ids). All violations are collected. The spec has one
  more rule, that a subnet list has at least two entries; a declaration has no property
  that says so, and whether the declarations of the source enforce it is what C8 asks,
  so the rule is not built into the check.
\<close>

datatype violation =
    MissingValue string
  | NotAllowed string
  | PatternMismatch string
  | TypeMismatch string

definition check_parameter :: "parameter_values \<Rightarrow> CfnParameter \<Rightarrow> violation list" where
  "check_parameter vals p =
     (if vals (logicalId p) = None \<and> default_value (props p) = None
      then [MissingValue (logicalId p)]
      else
        (case allowedValues (props p) of
           None \<Rightarrow> []
         | Some avs \<Rightarrow>
             if valueAsString vals p \<in> set avs then [] else [NotAllowed (logicalId p)])
        @ (case allowedPattern (props p) of
             None \<Rightarrow> []
           | Some r \<Rightarrow>
               if matches r (valueAsString vals p) then [] else [PatternMismatch (logicalId p)])
        @ (if well_typed (type (props p)) (valueAsString vals p)
           then [] else [TypeMismatch (logicalId p)]))"

definition validate :: "CfnParameter list \<Rightarrow> parameter_values \<Rightarrow> violation list" where
  "validate ps vals = concat (map (check_parameter vals) ps)"

section \<open>The parameters of the main stack\<close>

text \<open>The declarations of \<^verbatim>\<open>main-stack.ts\<close>, in the order of the source.\<close>

definition new_CfnParameter :: "string \<Rightarrow> CfnParameterProps \<Rightarrow> CfnParameter" where
  "new_CfnParameter ident ps = \<lparr>logicalId = ident, props = ps\<rparr>"

definition srcType :: CfnParameter where
  "srcType = new_CfnParameter ''srcType''
     \<lparr>description = ''Choose type of source storage, including Amazon S3, Aliyun OSS, Qiniu Kodo, Tencent COS'',
      type = ''String'',
      default_value = Some ''Amazon_S3'',
      allowedValues = Some [''Amazon_S3'', ''Aliyun_OSS'', ''Qiniu_Kodo'', ''Tencent_COS''],
      allowedPattern = None\<rparr>"

definition srcBucket :: CfnParameter where
  "srcBucket = new_CfnParameter ''srcBucket''
     \<lparr>description = ''Source Bucket Name'',
      type = ''String'',
      default_value = None,
      allowedValues = None,
      allowedPattern = None\<rparr>"

definition srcPrefix :: CfnParameter where
  "srcPrefix = new_CfnParameter ''srcPrefix''
     \<lparr>description = ''Source Prefix (Optional)'',
      type = ''String'',
      default_value = Some [],
      allowedValues = None,
      allowedPattern = None\<rparr>"

definition srcRegion :: CfnParameter where
  "srcRegion = new_CfnParameter ''srcRegion''
     \<lparr>description = ''Source Region Name'',
      type = ''String'',
      default_value = Some [],
      allowedValues = None,
      allowedPattern = None\<rparr>"

definition srcEndpoint :: CfnParameter where
  "srcEndpoint = new_CfnParameter ''srcEndpoint''
     \<lparr>description = ''Source Endpoint URL (Optional), leave blank unless you want to provide a custom Endpoint URL'',
      type = ''String'',
      default_value = Some [],
      allowedValues = None,
      allowedPattern = None\<rparr>"

definition srcInCurrentAccount :: CfnParameter where
  "srcInCurrentAccount = new_CfnParameter ''srcInCurrentAccount''
     \<lparr>description = ''Source Bucket in current account? If not, you should provide a credential with read access'',
      type = ''String'',
      default_value = Some ''false'',
      allowedValues = Some [''true'', ''false''],
      allowedPattern = None\<rparr>"

definition srcCredentials :: CfnParameter where
  "srcCredentials = new_CfnParameter ''srcCredentials''
     \<lparr>description = ''The secret name in Secrets Manager used to keep AK/SK credentials for Source Bucket. Leave blank if source bucket is in current account or source is open data'',
      type = ''String'',
      default_value = Some [],
      allowedValues = None,
      allowedPattern = None\<rparr>"

definition destBucket :: CfnParameter where
  "destBucket = new_CfnParameter ''destBucket''
     \<lparr>description = ''Destination Bucket Name'',
      type = ''String'',
      default_value = None,
      allowedValues = None,
      allowedPattern = None\<rparr>"

definition destPrefix :: CfnParameter where
  "destPrefix = new_CfnParameter ''destPrefix''
     \<lparr>description = ''Destination Prefix (Optional)'',
      type = ''String'',
      default_value = Some [],
      allowedValues = None,
      allowedPattern = None\<rparr>"

definition destRegion :: CfnParameter where
  "destRegion = new_CfnParameter ''destRegion''
     \<lparr>description = ''Destination Region Name'',
      type = ''String'',
      default_value = Some [],
      allowedValues = None,
      allowedPattern = None\<rparr>"

definition destInCurrentAccount :: CfnParameter where
  "destInCurrentAccount = new_CfnParameter ''destInCurrentAccount''
     \<lparr>description = ''Destination Bucket in current account? If not, you should provide a credential with read and write access'',
      type = ''String'',
      default_value = Some ''true'',
      allowedValues = Some [''true'', ''false''],
      allowedPattern = None\<rparr>"

definition destCredentials :: CfnParameter where
  "destCredentials = new_CfnParameter ''destCredentials''
     \<lparr>description = ''The secret name in Secrets Manager used to keep AK/SK credentials for Destination Bucket. Leave blank if desination bucket is in current account'',
      type = ''String'',
      default_value = Some [],
      allowedValues = None,
      allowedPattern = None\<rparr>"

definition destStorageClass :: CfnParameter where
  "destStorageClass = new_CfnParameter ''destStorageClass''
     \<lparr>description = ''Destination Storage Class, Default to STANDAD'',
      type = ''String'',
      default_value = Some ''STANDARD'',
      allowedValues = Some [''STANDARD'', ''STANDARD_IA'', ''ONEZONE_IA'', ''INTELLIGENT_TIERING''],
      allowedPattern = None\<rparr>"

definition destAcl :: CfnParameter where
  "destAcl = new_CfnParameter ''destAcl''
     \<lparr>description = ''Destination Access Control List'',
      type = ''String'',
      default_value = Some ''bucket-owner-full-control'',
      allowedValues = Some [''private'',
        ''public-read'',
        ''public-read-write'',
        ''authenticated-read'',
        ''aws-exec-read'',
        ''bucket-owner-read'',
        ''bucket-owner-full-control''],
      allowedPattern = None\<rparr>"

definition ecsClusterName :: CfnParameter where
  "ecsClusterName = new_CfnParameter ''ecsClusterName''
     \<lparr>description = ''ECS Cluster Name to run ECS task (Please make sure the cluster exists)'',
      type = ''String'',
      default_value = Some [],
      allowedValues = None,
      allowedPattern = None\<rparr>"

definition ecsVpcId :: CfnParameter where
  "ecsVpcId = new_CfnParameter ''ecsVpcId''
     \<lparr>description = ''VPC ID to run ECS task and EC2 instances, e.g. vpc-bef13dc7'',
      type = ''AWS::EC2::VPC::Id'',
      default_value = Some [],
      allowedValues = None,
      allowedPattern = None\<rparr>"

definition ecsSubnets :: CfnParameter where
  "ecsSubnets = new_CfnParameter ''ecsSubnets''
     \<lparr>description = ''Subnet IDs to run ECS task and EC2 instances. Please provide two subnets at least delimited by comma, e.g. subnet-97bfc4cd,subnet-7ad7de32'',
      type = ''List<AWS::EC2::Subnet::Id>'',
      default_value = Some [],
      allowedValues = None,
      allowedPattern = None\<rparr>"

definition alarmEmail :: CfnParameter where
  "alarmEmail = new_CfnParameter ''alarmEmail''
     \<lparr>description = ''Error notification will be sent to this email address'',
      type = ''String'',
      default_value = None,
      allowedValues = None,
      allowedPattern = Some alarmEmailPattern\<rparr>"

definition includeMetadata :: CfnParameter where
  "includeMetadata = new_CfnParameter ''includeMetadata''
     \<lparr>description = ''Add replication of object metadata, there will be additional API calls'',
      type = ''String'',
      default_value = Some ''true'',
      allowedValues = Some [''true'', ''false''],
      allowedPattern = None\<rparr>"

definition srcEvent :: CfnParameter where
  "srcEvent = new_CfnParameter ''srcEvent''
     \<lparr>description = ''Whether to enable S3 Event to trigger the replication. Note that S3Event is only applicable if source is in Current account'',
      type = ''String'',
      default_value = Some ''No'',
      allowedValues = Some [''No'', ''Create'', ''CreateAndDelete''],
      allowedPattern = None\<rparr>"

definition finderDepth :: CfnParameter where
  "finderDepth = new_CfnParameter ''finderDepth''
     \<lparr>description = ''The depth of sub folders to compare in parallel. 0 means comparing all objects in sequence'',
      type = ''String'',
      default_value = Some ''0'',
      allowedValues = None,
      allowedPattern = None\<rparr>"

definition finderNumber :: CfnParameter where
  "finderNumber = new_CfnParameter ''finderNumber''
     \<lparr>description = ''The number of finder threads to run in parallel'',
      type = ''String'',
      default_value = Some ''1'',
      allowedValues = None,
      allowedPattern = None\<rparr>"

definition workerNumber :: CfnParameter where
  "workerNumber = new_CfnParameter ''workerNumber''
     \<lparr>description = ''The number of worker threads to run in one worker node/instance'',
      type = ''String'',
      default_value = Some ''4'',
      allowedValues = None,
      allowedPattern = None\<rparr>"

definition maxCapacity :: CfnParameter where
  "maxCapacity = new_CfnParameter ''maxCapacity''
     \<lparr>description = ''Maximum Capacity for Auto Scaling Group'',
      type = ''Number'',
      default_value = Some ''20'',
      allowedValues = None,
      allowedPattern = None\<rparr>"

definition minCapacity :: CfnParameter where
  "minCapacity = new_CfnParameter ''minCapacity''
     \<lparr>description = ''Minimum Capacity for Auto Scaling Group'',
      type = ''Number'',
      default_value = Some ''1'',
      allowedValues = None,
      allowedPattern = None\<rparr>"

definition desiredCapacity :: CfnParameter where
  "desiredCapacity = new_CfnParameter ''desiredCapacity''
     \<lparr>description = ''Desired Capacity for Auto Scaling Group'',
      type = ''Number'',
      default_value = Some ''1'',
      allowedValues = None,
      allowedPattern = None\<rparr>"

section \<open>Shared resources\<close>

text \<open>
  The construct \<^verbatim>\<open>CommonStack\<close>: the job table, the work queue with its dead-letter
  queue, the alarm on the dead-letter queue, and the encrypted topic the alarm notifies.
  Names that the backend generates (table, queue and topic names) are referred to by the
  logical id of their resource; \<^verbatim>\<open>Aws.STACK_NAME\<close> and \<^verbatim>\<open>Aws.REGION\<close> by the name
  of their pseudo parameter. A record holds the properties the source passes to the
  constructor of a resource; what the construct library adds of its own (the statement
  that lets the account administer a key, in the policy of the key) is not part of it.
\<close>

definition Aws_REGION :: string where
  "Aws_REGION = ''AWS::Region''"

definition Aws_STACK_NAME :: string where
  "Aws_STACK_NAME = ''AWS::StackName''"

datatype Duration = Duration (toSeconds: nat)

definition Duration_minutes :: "nat \<Rightarrow> Duration" where
  "Duration_minutes n = Duration (n * 60)"

definition Duration_days :: "nat \<Rightarrow> Duration" where
  "Duration_days n = Duration (n * 86400)"

datatype AttributeType = BINARY | NUMBER | STRING

datatype BillingMode = PAY_PER_REQUEST | PROVISIONED

datatype RemovalPolicy = DESTROY | RETAIN | SNAPSHOT

datatype TableEncryption = DEFAULT | CUSTOMER_MANAGED | AWS_MANAGED

record Table =
  tableId :: string
  partitionKey :: "string \<times> AttributeType"
  billingMode :: BillingMode
  removalPolicy :: RemovalPolicy
  tableEncryption :: TableEncryption
  pointInTimeRecovery :: bool

definition tableName :: "Table \<Rightarrow> string" where
  "tableName t = tableId t"

definition tableArn :: "Table \<Rightarrow> string" where
  "tableArn t = ''arn:AWS::Partition:dynamodb:AWS::Region:AWS::AccountId:table/'' @ tableId t"

datatype QueueEncryption = UNENCRYPTED | KMS_MANAGED | KMS

text \<open>
  A queue with the properties the source passes; a property the source leaves out is
  \<open>None\<close>. A queue without the \<^verbatim>\<open>encryption\<close> property is not encrypted.
\<close>

datatype Queue =
  Queue (queueId: string)
        (visibilityTimeout: "Duration option")
        (retentionPeriod: "Duration option")
        (encryption: "QueueEncryption option")
        (deadLetterQueue: "DeadLetterQueue option")
and DeadLetterQueue =
  DeadLetterQueue (queue: Queue) (maxReceiveCount: nat)

definition queueName :: "Queue \<Rightarrow> string" where
  "queueName q = queueId q"

definition encrypted :: "Queue \<Rightarrow> bool" where
  "encrypted q =
     (case encryption q of
        None \<Rightarrow> False
      | Some UNENCRYPTED \<Rightarrow> False
      | Some KMS_MANAGED \<Rightarrow> True
      | Some KMS \<Rightarrow> True)"

record Metric =
  namespace :: string
  metricName :: string
  dimensionQueue :: string

definition metricApproximateNumberOfMessagesVisible :: "Queue \<Rightarrow> Metric" where
  "metricApproximateNumberOfMessagesVisible q =
     \<lparr>namespace = ''AWS/SQS'',
      metricName = ''ApproximateNumberOfMessagesVisible'',
      dimensionQueue = queueName q\<rparr>"

datatype ComparisonOperator =
    GREATER_THAN_OR_EQUAL_TO_THRESHOLD
  | GREATER_THAN_THRESHOLD
  | LESS_THAN_THRESHOLD
  | LESS_THAN_OR_EQUAL_TO_THRESHOLD

record Alarm =
  metric :: Metric
  threshold :: int
  comparisonOperator :: ComparisonOperator
  evaluationPeriods :: nat
  datapointsToAlarm :: "nat option"
  alarmActions :: "string list"

text \<open>
  The alarm rule: a datapoint breaches when it compares to the threshold as the operator
  says; the alarm fires when, of the datapoints of the last \<open>evaluationPeriods\<close>
  periods, at least \<open>datapointsToAlarm\<close> breach. Datapoints are listed oldest first.
\<close>

fun breaches :: "ComparisonOperator \<Rightarrow> int \<Rightarrow> int \<Rightarrow> bool" where
  "breaches GREATER_THAN_OR_EQUAL_TO_THRESHOLD t v = (t \<le> v)"
| "breaches GREATER_THAN_THRESHOLD t v = (t < v)"
| "breaches LESS_THAN_THRESHOLD t v = (v < t)"
| "breaches LESS_THAN_OR_EQUAL_TO_THRESHOLD t v = (v \<le> t)"

definition last_periods :: "nat \<Rightarrow> int list \<Rightarrow> int list" where
  "last_periods n xs = drop (length xs - n) xs"

definition fires :: "Alarm \<Rightarrow> int list \<Rightarrow> bool" where
  "fires a datapoints =
     (let recent = last_periods (evaluationPeriods a) datapoints;
          needed = (case datapointsToAlarm a of None \<Rightarrow> evaluationPeriods a | Some m \<Rightarrow> m)
      in needed \<le> length (filter (breaches (comparisonOperator a) (threshold a)) recent))"

datatype Effect = ALLOW | DENY

record PolicyStatement =
  actions :: "string list"
  resources :: "string list"
  effect :: "Effect option"
  principals :: "string list"

record PolicyDocument =
  assignSids :: bool
  statements :: "PolicyStatement list"

record Key =
  enableKeyRotation :: bool
  enabled :: bool
  key_alias :: string
  policy :: PolicyDocument

record Topic =
  topicId :: string
  masterKey :: Key
  displayName :: string
  subscriptions :: "string list"

definition topicName :: "Topic \<Rightarrow> string" where
  "topicName t = topicId t"

record CfnNagSuppressRule =
  rule_id :: string
  reason :: string

record CfnOutput =
  output_value :: string
  output_description :: string

record CommonProps =
  common_alarmEmail :: string

record CommonStack =
  jobTable :: Table
  sqsQueueDLQ :: Queue
  sqsQueue :: Queue
  alarmDLQ :: Alarm
  alarmTopic :: Topic
  cfn_nag :: "(string \<times> CfnNagSuppressRule list) list"
  outputs :: "(string \<times> CfnOutput) list"

definition S3TransferTable :: Table where
  "S3TransferTable =
     \<lparr>tableId = ''S3TransferTable'',
      partitionKey = (''ObjectKey'', STRING),
      billingMode = PAY_PER_REQUEST,
      removalPolicy = DESTROY,
      tableEncryption = DEFAULT,
      pointInTimeRecovery = True\<rparr>"

definition S3TransferQueueDLQ :: Queue where
  "S3TransferQueueDLQ =
     Queue ''S3TransferQueueDLQ''
       (Some (Duration_minutes 30))
       (Some (Duration_days 14))
       (Some KMS_MANAGED)
       None"

definition S3TransferQueue :: Queue where
  "S3TransferQueue =
     Queue ''S3TransferQueue''
       (Some (Duration_minutes 15))
       (Some (Duration_days 14))
       None
       (Some (DeadLetterQueue S3TransferQueueDLQ 5))"

definition SNSTopicEncryptionKey :: Key where
  "SNSTopicEncryptionKey =
     \<lparr>enableKeyRotation = True,
      enabled = True,
      key_alias = ''alias/dth/sns/'' @ Aws_STACK_NAME,
      policy =
        \<lparr>assignSids = True,
         statements =
           [\<lparr>actions = [''kms:GenerateDataKey*'', ''kms:Decrypt'', ''kms:Encrypt''],
             resources = [''*''],
             effect = Some ALLOW,
             principals = [''sns.amazonaws.com'', ''cloudwatch.amazonaws.com'']\<rparr>]\<rparr>\<rparr>"

definition S3TransferAlarmTopic :: "CommonProps \<Rightarrow> Topic" where
  "S3TransferAlarmTopic ps =
     \<lparr>topicId = ''S3TransferAlarmTopic'',
      masterKey = SNSTopicEncryptionKey,
      displayName = ''Data Transfer Hub Alarm ('' @ Aws_STACK_NAME @ '')'',
      subscriptions = [common_alarmEmail ps]\<rparr>"

definition S3TransferDLQAlarm :: "CommonProps \<Rightarrow> Alarm" where
  "S3TransferDLQAlarm ps =
     \<lparr>metric = metricApproximateNumberOfMessagesVisible S3TransferQueueDLQ,
      threshold = 0,
      comparisonOperator = GREATER_THAN_THRESHOLD,
      evaluationPeriods = 1,
      datapointsToAlarm = Some 1,
      alarmActions = [topicId (S3TransferAlarmTopic ps)]\<rparr>"

definition CommonStack :: "CommonProps \<Rightarrow> CommonStack" where
  "CommonStack ps =
     \<lparr>jobTable = S3TransferTable,
      sqsQueueDLQ = S3TransferQueueDLQ,
      sqsQueue = S3TransferQueue,
      alarmDLQ = S3TransferDLQAlarm ps,
      alarmTopic = S3TransferAlarmTopic ps,
      cfn_nag =
        [(''S3TransferTable'',
            [\<lparr>rule_id = ''W74'',
              reason = ''Use deafult encryption. Encryption key owned by Amazon''\<rparr>]),
         (''S3TransferQueue'',
            [\<lparr>rule_id = ''W48'', reason = ''No need to use encryption''\<rparr>])],
      outputs =
        [(''TableName'',
            \<lparr>output_value = tableName S3TransferTable,
             output_description = ''DynamoDB Table Name''\<rparr>),
         (''QueueName'',
            \<lparr>output_value = queueName S3TransferQueue,
             output_description = ''Queue Name''\<rparr>),
         (''DLQQueueName'',
            \<lparr>output_value = queueName S3TransferQueueDLQ,
             output_description = ''Dead Letter Queue Name''\<rparr>),
         (''AlarmTopicName'',
            \<lparr>output_value = topicName (S3TransferAlarmTopic ps),
             output_description = ''Alarm Topic Name''\<rparr>)]\<rparr>"

section \<open>The constructs the main stack composes\<close>

text \<open>
  The runtime mode is read from the context:
  \<^verbatim>\<open>this.node.tryGetContext('runType') || RunType.EC2\<close>. The right operand of
  \<^verbatim>\<open>||\<close> is taken when the context has no value or an empty one.
\<close>

definition RunType_EC2 :: string where
  "RunType_EC2 = ''EC2''"

definition RunType_LAMBDA :: string where
  "RunType_LAMBDA = ''Lambda''"

type_synonym cdk_context = "string \<Rightarrow> string option"

definition tryGetContext :: "cdk_context \<Rightarrow> string \<Rightarrow> string option" where
  "tryGetContext ctx key = ctx key"

definition runType_of :: "cdk_context \<Rightarrow> string" where
  "runType_of ctx =
     (case tryGetContext ctx ''runType'' of
        None \<Rightarrow> RunType_EC2
      | Some v \<Rightarrow> if v = [] then RunType_EC2 else v)"

text \<open>
  The two roles the main stack grants to, named by the path on which the source reaches
  them: \<^verbatim>\<open>ecsStack.taskDefinition.taskRole\<close> and \<^verbatim>\<open>ec2Stack.workerAsg.role\<close>.
\<close>

datatype principal = TaskRole | WorkerRole

record ISecret =
  secretName :: string

definition secretArn :: "ISecret \<Rightarrow> string" where
  "secretArn s =
     ''arn:AWS::Partition:secretsmanager:AWS::Region:AWS::AccountId:secret:'' @ secretName s"

record IBucket =
  bucketId :: string
  bucketName :: string

record VpcAttributes =
  vpcId :: string
  availabilityZones :: "string list"
  publicSubnetIds :: "string list"

definition Fn_getAzs :: "string list" where
  "Fn_getAzs = [''Fn::GetAZs'']"

record Policy =
  policyId :: string
  policy_statements :: "PolicyStatement list"

text \<open>
  The props interfaces of the four constructs the main stack instantiates. A field
  carries the prefix of its interface, since several interfaces share field names
  (\<^verbatim>\<open>env\<close>, \<^verbatim>\<open>vpc\<close>, \<^verbatim>\<open>queue\<close>).
\<close>

record EcsTaskProps =
  ecs_env :: "(string \<times> string) list"
  ecs_vpc :: VpcAttributes
  ecs_ecsSubnetIds :: "string list"
  ecs_ecsClusterName :: string
  ecs_cliRelease :: string

record Ec2WorkerProps =
  ec2_env :: "(string \<times> string) list"
  ec2_vpc :: VpcAttributes
  ec2_queue :: Queue
  ec2_maxCapacity :: "int option"
  ec2_minCapacity :: "int option"
  ec2_desiredCapacity :: "int option"
  ec2_cliRelease :: string

record DBProps =
  db_runType :: string
  db_queue :: Queue
  db_asgName :: "string option"

record EventProps =
  ev_events :: string
  ev_bucket :: IBucket
  ev_prefix :: string
  ev_queue :: Queue

text \<open>
  The constructs behind \<^verbatim>\<open>EcsStack\<close>, \<^verbatim>\<open>Ec2WorkerStack\<close> and
  \<^verbatim>\<open>EventStack\<close>, with the members the main stack reads:
  \<^verbatim>\<open>taskDefinition.taskRole\<close>, \<^verbatim>\<open>workerAsg.role\<close>,
  \<^verbatim>\<open>workerAsg.autoScalingGroupName\<close> and \<^verbatim>\<open>nestedStackResource\<close>.
  \<^verbatim>\<open>DashboardStack\<close> is kept as the props it is instantiated with.
\<close>

record TaskDefinition =
  taskRole :: principal

record EcsStack =
  ecsProps :: EcsTaskProps
  taskDefinition :: TaskDefinition

record AutoScalingGroup =
  role :: principal
  autoScalingGroupName :: string
  scalingSignal :: Queue

record Ec2WorkerStack =
  ec2Props :: Ec2WorkerProps
  workerAsg :: AutoScalingGroup

record CfnResource =
  resource_logicalId :: string
  cfnOptions_condition :: "string option"

record EventStack =
  eventProps :: EventProps
  nestedStackResource :: "CfnResource option"

datatype error = ValidationError string

text \<open>
  Modelled from the spec: the constructor of \<^verbatim>\<open>EcsStack\<close>
  (\<^verbatim>\<open>ecs-finder-stack.ts\<close> is not among the sources). It builds one discovery task
  definition, with its role, bound to the cluster and the subnets of its props, and
  hands the task the environment of its props.
\<close>

definition EcsStack :: "EcsTaskProps \<Rightarrow> EcsStack" where
  "EcsStack ps = \<lparr>ecsProps = ps, taskDefinition = \<lparr>taskRole = TaskRole\<rparr>\<rparr>"

text \<open>
  Modelled from the spec: the scaling bounds \<^verbatim>\<open>Ec2WorkerStack\<close> enforces
  (\<^verbatim>\<open>ec2-worker-stack.ts\<close> is not among the sources). The spec says:
  \<open>minCapacity \<le> desiredCapacity \<le> maxCapacity\<close>, all non-negative integers, enforced
  before resource creation. A capacity that is absent (\<^verbatim>\<open>undefined\<close>) is not
  compared.
\<close>

definition nonneg :: "int option \<Rightarrow> bool" where
  "nonneg a = (case a of None \<Rightarrow> True | Some x \<Rightarrow> 0 \<le> x)"

definition ordered :: "int option \<Rightarrow> int option \<Rightarrow> bool" where
  "ordered a b =
     (case a of None \<Rightarrow> True | Some x \<Rightarrow> (case b of None \<Rightarrow> True | Some y \<Rightarrow> x \<le> y))"

definition capacity_consistent :: "Ec2WorkerProps \<Rightarrow> bool" where
  "capacity_consistent ps =
     (nonneg (ec2_minCapacity ps) \<and> nonneg (ec2_desiredCapacity ps)
      \<and> nonneg (ec2_maxCapacity ps)
      \<and> ordered (ec2_minCapacity ps) (ec2_desiredCapacity ps)
      \<and> ordered (ec2_desiredCapacity ps) (ec2_maxCapacity ps)
      \<and> ordered (ec2_minCapacity ps) (ec2_maxCapacity ps))"

text \<open>
  Modelled from the spec: the constructor of \<^verbatim>\<open>Ec2WorkerStack\<close>
  (\<^verbatim>\<open>ec2-worker-stack.ts\<close> is not among the sources). The spec says of it: it builds
  an autoscaling role and scaling bounds, bound to the shared queue as its scaling
  signal; capacity parameters that are present but inconsistent are a fatal composition
  error, reported before any fleet resource is created.
\<close>

definition Ec2WorkerStack :: "Ec2WorkerProps \<Rightarrow> error + Ec2WorkerStack" where
  "Ec2WorkerStack ps =
     (if capacity_consistent ps
      then Inr \<lparr>ec2Props = ps,
                workerAsg = \<lparr>role = WorkerRole,
                             autoScalingGroupName = ''WorkerAsg'',
                             scalingSignal = ec2_queue ps\<rparr>\<rparr>
      else Inl (ValidationError ''minCapacity <= desiredCapacity <= maxCapacity''))"

text \<open>
  Modelled from the spec: the constructor of \<^verbatim>\<open>EventStack\<close>
  (\<^verbatim>\<open>event-stack.ts\<close> is not among the sources). The sub-topology is specified in
  full from its props, as a nested stack whose resource in the parent stack can carry a
  condition; the resource starts with a generated logical id and no condition.
\<close>

definition EventStack :: "EventProps \<Rightarrow> EventStack" where
  "EventStack ps =
     \<lparr>eventProps = ps,
      nestedStackResource =
        Some \<lparr>resource_logicalId = ''EventStackNestedStackResource'',
              cfnOptions_condition = None\<rparr>\<rparr>"

text \<open>
  Condition expressions, with the parameter references already replaced by the values,
  and what they evaluate to.
\<close>

datatype cfn_condition =
    ConditionEquals string string
  | ConditionAnd "cfn_condition list"
  | ConditionNot cfn_condition

fun holds :: "cfn_condition \<Rightarrow> bool" where
  "holds (ConditionEquals a b) = (a = b)"
| "holds (ConditionAnd cs) = list_all holds cs"
| "holds (ConditionNot c) = (\<not> holds c)"

datatype access = SendMessages | ConsumeMessages | Read | ReadWrite

record grant =
  grantee :: principal
  resource :: string
  access :: access

datatype construct =
    SecretC ISecret
  | BucketC IBucket
  | VpcC VpcAttributes
  | CommonStackC CommonStack
  | PolicyC Policy
  | EcsStackC EcsStack
  | Ec2WorkerStackC Ec2WorkerStack
  | DashboardStackC DBProps
  | EventStackC EventStack

text \<open>
  The stack under construction: the declared parameters with their presentation groups
  and labels, the child constructs by id in the order of their creation, the conditions,
  the inline policies attached to roles and the grants made.
\<close>

record Stack =
  parameters :: "CfnParameter list"
  paramGroups :: "(string \<times> string list) list"
  paramLabels :: "(string \<times> string) list"
  constructs :: "(string \<times> construct) list"
  conditions :: "(string \<times> cfn_condition) list"
  attachments :: "(principal \<times> string) list"
  grants :: "grant list"

definition empty_stack :: Stack where
  "empty_stack =
     \<lparr>parameters = [], paramGroups = [], paramLabels = [], constructs = [],
      conditions = [], attachments = [], grants = []\<rparr>"

definition run :: "('s \<Rightarrow> 's) list \<Rightarrow> 's \<Rightarrow> 's" where
  "run steps st = fold (\<lambda>step. step) steps st"

definition declareParameter :: "CfnParameter \<Rightarrow> Stack \<Rightarrow> Stack" where
  "declareParameter p st = st\<lparr>parameters := parameters st @ [p]\<rparr>"

definition addToParamGroups :: "string \<Rightarrow> string list \<Rightarrow> Stack \<Rightarrow> Stack" where
  "addToParamGroups label param st = st\<lparr>paramGroups := paramGroups st @ [(label, param)]\<rparr>"

fun assign :: "'k \<Rightarrow> 'v \<Rightarrow> ('k \<times> 'v) list \<Rightarrow> ('k \<times> 'v) list" where
  "assign k v [] = [(k, v)]"
| "assign k v (kv # kvs) = (if fst kv = k then (k, v) # kvs else kv # assign k v kvs)"

definition addToParamLabels :: "string \<Rightarrow> string \<Rightarrow> Stack \<Rightarrow> Stack" where
  "addToParamLabels label param st = st\<lparr>paramLabels := assign param label (paramLabels st)\<rparr>"

definition add :: "string \<Rightarrow> construct \<Rightarrow> Stack \<Rightarrow> Stack" where
  "add ident c st = st\<lparr>constructs := constructs st @ [(ident, c)]\<rparr>"

definition new_CfnCondition :: "string \<Rightarrow> cfn_condition \<Rightarrow> Stack \<Rightarrow> Stack" where
  "new_CfnCondition ident e st = st\<lparr>conditions := conditions st @ [(ident, e)]\<rparr>"

definition attachInlinePolicy :: "principal \<Rightarrow> Policy \<Rightarrow> Stack \<Rightarrow> Stack" where
  "attachInlinePolicy r pol st = st\<lparr>attachments := attachments st @ [(r, policyId pol)]\<rparr>"

definition grantSendMessages :: "Queue \<Rightarrow> principal \<Rightarrow> Stack \<Rightarrow> Stack" where
  "grantSendMessages q r st =
     st\<lparr>grants := grants st @ [\<lparr>grantee = r, resource = queueId q, access = SendMessages\<rparr>]\<rparr>"

definition grantConsumeMessages :: "Queue \<Rightarrow> principal \<Rightarrow> Stack \<Rightarrow> Stack" where
  "grantConsumeMessages q r st =
     st\<lparr>grants := grants st @ [\<lparr>grantee = r, resource = queueId q, access = ConsumeMessages\<rparr>]\<rparr>"

definition grantRead :: "IBucket \<Rightarrow> principal \<Rightarrow> Stack \<Rightarrow> Stack" where
  "grantRead b r st =
     st\<lparr>grants := grants st @ [\<lparr>grantee = r, resource = bucketId b, access = Read\<rparr>]\<rparr>"

definition grantReadWrite :: "IBucket \<Rightarrow> principal \<Rightarrow> Stack \<Rightarrow> Stack" where
  "grantReadWrite b r st =
     st\<lparr>grants := grants st @ [\<lparr>grantee = r, resource = bucketId b, access = ReadWrite\<rparr>]\<rparr>"

text \<open>
  \<^verbatim>\<open>eventStack.nestedStackResource?.overrideLogicalId('EventStack')\<close> and
  \<^verbatim>\<open>if (eventStack.nestedStackResource) { ....cfnOptions.condition = useS3Event }\<close>
  change the resource of a construct that is already in the stack, when it has one.
\<close>

fun update_resource :: "(CfnResource \<Rightarrow> CfnResource) \<Rightarrow> construct \<Rightarrow> construct" where
  "update_resource f (EventStackC ev) =
     EventStackC (ev\<lparr>nestedStackResource := map_option f (nestedStackResource ev)\<rparr>)"
| "update_resource f c = c"

definition at_construct :: "string \<Rightarrow> (construct \<Rightarrow> construct) \<Rightarrow> Stack \<Rightarrow> Stack" where
  "at_construct ident f st =
     st\<lparr>constructs :=
          map (\<lambda>kc. if fst kc = ident then (fst kc, f (snd kc)) else kc) (constructs st)\<rparr>"

definition overrideLogicalId :: "string \<Rightarrow> string \<Rightarrow> Stack \<Rightarrow> Stack" where
  "overrideLogicalId ident new_id =
     at_construct ident (update_resource (\<lambda>r. r\<lparr>resource_logicalId := new_id\<rparr>))"

definition set_cfnOptions_condition :: "string \<Rightarrow> string \<Rightarrow> Stack \<Rightarrow> Stack" where
  "set_cfnOptions_condition ident cond =
     at_construct ident (update_resource (\<lambda>r. r\<lparr>cfnOptions_condition := Some cond\<rparr>))"

section \<open>The main stack\<close>

text \<open>
  The constructor of \<^verbatim>\<open>DataTransferS3Stack\<close>, in the order of the source. The
  template description and the packaging metadata of the nested stack resource (the
  template name and the download domain) create no resource and are left out.
\<close>

definition cliRelease :: string where
  "cliRelease = ''1.0.0''"

definition declare_capacity :: "Stack \<Rightarrow> Stack" where
  "declare_capacity =
     run [declareParameter maxCapacity,
          addToParamLabels ''Maximum Capacity'' (logicalId maxCapacity),
          declareParameter minCapacity,
          addToParamLabels ''Minimum Capacity'' (logicalId minCapacity),
          declareParameter desiredCapacity,
          addToParamLabels ''Desired Capacity'' (logicalId desiredCapacity),
          addToParamGroups ''Advanced Options''
            [logicalId finderDepth, logicalId finderNumber, logicalId workerNumber,
             logicalId includeMetadata, logicalId maxCapacity, logicalId minCapacity,
             logicalId desiredCapacity]]"

definition declare_parameters :: "string \<Rightarrow> Stack \<Rightarrow> Stack" where
  "declare_parameters runType =
     run [declareParameter srcType,
          addToParamLabels ''Source Type'' (logicalId srcType),
          declareParameter srcBucket,
          addToParamLabels ''Source Bucket'' (logicalId srcBucket),
          declareParameter srcPrefix,
          addToParamLabels ''Source Prefix'' (logicalId srcPrefix),
          declareParameter srcRegion,
          addToParamLabels ''Source Region'' (logicalId srcRegion),
          declareParameter srcEndpoint,
          addToParamLabels ''Source Endpoint URL'' (logicalId srcEndpoint),
          declareParameter srcInCurrentAccount,
          addToParamLabels ''Source In Current Account'' (logicalId srcInCurrentAccount),
          declareParameter srcCredentials,
          addToParamLabels ''Source Credentials'' (logicalId srcCredentials),
          declareParameter destBucket,
          addToParamLabels ''Destination Bucket'' (logicalId destBucket),
          declareParameter destPrefix,
          addToParamLabels ''Destination Prefix'' (logicalId destPrefix),
          declareParameter destRegion,
          addToParamLabels ''Destination Region'' (logicalId destRegion),
          declareParameter destInCurrentAccount,
          addToParamLabels ''Destination In Current Account'' (logicalId destInCurrentAccount),
          declareParameter destCredentials,
          addToParamLabels ''Destination Credentials'' (logicalId destCredentials),
          declareParameter destStorageClass,
          addToParamLabels ''Destination Storage Class'' (logicalId destStorageClass),
          declareParameter destAcl,
          addToParamLabels ''Destination Access Control List'' (logicalId destAcl),
          declareParameter ecsClusterName,
          addToParamLabels ''ECS Cluster Name'' (logicalId ecsClusterName),
          declareParameter ecsVpcId,
          addToParamLabels ''VPC ID'' (logicalId ecsVpcId),
          declareParameter ecsSubnets,
          addToParamLabels ''Subnet IDs'' (logicalId ecsSubnets),
          declareParameter alarmEmail,
          addToParamLabels ''Alarm Email'' (logicalId alarmEmail),
          declareParameter includeMetadata,
          addToParamLabels ''Include Metadata'' (logicalId includeMetadata),
          declareParameter srcEvent,
          addToParamLabels ''Enable S3 Event'' (logicalId srcEvent),
          declareParameter finderDepth,
          declareParameter finderNumber,
          declareParameter workerNumber,
          addToParamGroups ''Source Information''
            [logicalId srcType, logicalId srcBucket, logicalId srcPrefix, logicalId srcRegion,
             logicalId srcEndpoint, logicalId srcInCurrentAccount, logicalId srcCredentials,
             logicalId srcEvent],
          addToParamGroups ''Destination Information''
            [logicalId destBucket, logicalId destPrefix, logicalId destRegion,
             logicalId destInCurrentAccount, logicalId destCredentials,
             logicalId destStorageClass, logicalId destAcl],
          addToParamGroups ''ECS Cluster Information'' [logicalId ecsClusterName],
          addToParamGroups ''Network Information'' [logicalId ecsVpcId, logicalId ecsSubnets],
          addToParamGroups ''Notification Information'' [logicalId alarmEmail],
          if runType = RunType_EC2 then declare_capacity else (\<lambda>st. st)]"

text \<open>
  \<^verbatim>\<open>let maxCapacity: CfnParameter | undefined\<close> and its two companions are assigned
  only in the EC2 branch.
\<close>

definition capacity_variable :: "string \<Rightarrow> CfnParameter \<Rightarrow> CfnParameter option" where
  "capacity_variable runType p = (if runType = RunType_EC2 then Some p else None)"

definition srcCred :: "parameter_values \<Rightarrow> ISecret" where
  "srcCred vals = \<lparr>secretName = valueAsString vals srcCredentials\<rparr>"

definition destCred :: "parameter_values \<Rightarrow> ISecret" where
  "destCred vals = \<lparr>secretName = valueAsString vals destCredentials\<rparr>"

definition srcIBucket :: "parameter_values \<Rightarrow> IBucket" where
  "srcIBucket vals = \<lparr>bucketId = ''SrcBucket'', bucketName = valueAsString vals srcBucket\<rparr>"

definition destIBucket :: "parameter_values \<Rightarrow> IBucket" where
  "destIBucket vals = \<lparr>bucketId = ''DestBucket'', bucketName = valueAsString vals destBucket\<rparr>"

definition vpc :: "parameter_values \<Rightarrow> VpcAttributes" where
  "vpc vals =
     \<lparr>vpcId = valueAsString vals ecsVpcId,
      availabilityZones = Fn_getAzs,
      publicSubnetIds = valueAsList vals ecsSubnets\<rparr>"

definition commonProps :: "parameter_values \<Rightarrow> CommonProps" where
  "commonProps vals = \<lparr>common_alarmEmail = valueAsString vals alarmEmail\<rparr>"

definition commonStack :: "parameter_values \<Rightarrow> CommonStack" where
  "commonStack vals = CommonStack (commonProps vals)"

definition defaultPolicy :: "parameter_values \<Rightarrow> Policy" where
  "defaultPolicy vals =
     \<lparr>policyId = ''DefaultPolicy'',
      policy_statements =
        [\<lparr>actions =
            [''dynamodb:BatchGetItem'',
             ''dynamodb:GetRecords'',
             ''dynamodb:GetShardIterator'',
             ''dynamodb:Query'',
             ''dynamodb:GetItem'',
             ''dynamodb:Scan'',
             ''dynamodb:ConditionCheckItem'',
             ''dynamodb:BatchWriteItem'',
             ''dynamodb:PutItem'',
             ''dynamodb:UpdateItem'',
             ''dynamodb:DeleteItem''],
          resources = [tableArn (jobTable (commonStack vals))],
          effect = None,
          principals = []\<rparr>,
         \<lparr>actions =
            [''secretsmanager:GetSecretValue'',
             ''secretsmanager:DescribeSecret''],
          resources =
            [secretArn (srcCred vals) @ ''-??????'',
             secretArn (destCred vals) @ ''-??????''],
          effect = None,
          principals = []\<rparr>]\<rparr>"

definition finderEnv :: "parameter_values \<Rightarrow> (string \<times> string) list" where
  "finderEnv vals =
     [(''AWS_DEFAULT_REGION'', Aws_REGION),
      (''JOB_TABLE_NAME'', tableName (jobTable (commonStack vals))),
      (''JOB_QUEUE_NAME'', queueName (sqsQueue (commonStack vals))),
      (''SOURCE_TYPE'', valueAsString vals srcType),
      (''SRC_BUCKET'', valueAsString vals srcBucket),
      (''SRC_PREFIX'', valueAsString vals srcPrefix),
      (''SRC_REGION'', valueAsString vals srcRegion),
      (''SRC_ENDPOINT'', valueAsString vals srcEndpoint),
      (''SRC_CREDENTIALS'', valueAsString vals srcCredentials),
      (''SRC_IN_CURRENT_ACCOUNT'', valueAsString vals srcInCurrentAccount),
      (''DEST_BUCKET'', valueAsString vals destBucket),
      (''DEST_PREFIX'', valueAsString vals destPrefix),
      (''DEST_REGION'', valueAsString vals destRegion),
      (''DEST_CREDENTIALS'', valueAsString vals destCredentials),
      (''DEST_IN_CURRENT_ACCOUNT'', valueAsString vals destInCurrentAccount),
      (''FINDER_DEPTH'', valueAsString vals finderDepth),
      (''FINDER_NUMBER'', valueAsString vals finderNumber)]"

definition ecsProps_of :: "parameter_values \<Rightarrow> EcsTaskProps" where
  "ecsProps_of vals =
     \<lparr>ecs_env = finderEnv vals,
      ecs_vpc = vpc vals,
      ecs_ecsSubnetIds = valueAsList vals ecsSubnets,
      ecs_ecsClusterName = valueAsString vals ecsClusterName,
      ecs_cliRelease = cliRelease\<rparr>"

definition ecsStack :: "parameter_values \<Rightarrow> EcsStack" where
  "ecsStack vals = EcsStack (ecsProps_of vals)"

definition workerEnv :: "parameter_values \<Rightarrow> (string \<times> string) list" where
  "workerEnv vals =
     [(''JOB_TABLE_NAME'', tableName (jobTable (commonStack vals))),
      (''JOB_QUEUE_NAME'', queueName (sqsQueue (commonStack vals))),
      (''SOURCE_TYPE'', valueAsString vals srcType),
      (''SRC_BUCKET'', valueAsString vals srcBucket),
      (''SRC_PREFIX'', valueAsString vals srcPrefix),
      (''SRC_REGION'', valueAsString vals srcRegion),
      (''SRC_ENDPOINT'', valueAsString vals srcEndpoint),
      (''SRC_CREDENTIALS'', valueAsString vals srcCredentials),
      (''SRC_IN_CURRENT_ACCOUNT'', valueAsString vals srcInCurrentAccount),
      (''DEST_BUCKET'', valueAsString vals destBucket),
      (''DEST_PREFIX'', valueAsString vals destPrefix),
      (''DEST_REGION'', valueAsString vals destRegion),
      (''DEST_CREDENTIALS'', valueAsString vals destCredentials),
      (''DEST_IN_CURRENT_ACCOUNT'', valueAsString vals destInCurrentAccount),
      (''DEST_STORAGE_CLASS'', valueAsString vals destStorageClass),
      (''DEST_ACL'', valueAsString vals destAcl),
      (''FINDER_DEPTH'', valueAsString vals finderDepth),
      (''FINDER_NUMBER'', valueAsString vals finderNumber),
      (''WORKER_NUMBER'', valueAsString vals workerNumber),
      (''INCLUDE_METADATA'', valueAsString vals includeMetadata)]"

definition ec2Props_of :: "string \<Rightarrow> parameter_values \<Rightarrow> Ec2WorkerProps" where
  "ec2Props_of runType vals =
     \<lparr>ec2_env = workerEnv vals,
      ec2_vpc = vpc vals,
      ec2_queue = sqsQueue (commonStack vals),
      ec2_maxCapacity = Option.bind (capacity_variable runType maxCapacity) (valueAsNumber vals),
      ec2_minCapacity = Option.bind (capacity_variable runType minCapacity) (valueAsNumber vals),
      ec2_desiredCapacity =
        Option.bind (capacity_variable runType desiredCapacity) (valueAsNumber vals),
      ec2_cliRelease = cliRelease\<rparr>"

definition dbProps_of :: "string \<Rightarrow> parameter_values \<Rightarrow> string option \<Rightarrow> DBProps" where
  "dbProps_of runType vals asgName =
     \<lparr>db_runType = runType,
      db_queue = sqsQueue (commonStack vals),
      db_asgName = asgName\<rparr>"

definition eventProps_of :: "parameter_values \<Rightarrow> EventProps" where
  "eventProps_of vals =
     \<lparr>ev_events = valueAsString vals srcEvent,
      ev_bucket = srcIBucket vals,
      ev_prefix = valueAsString vals srcPrefix,
      ev_queue = sqsQueue (commonStack vals)\<rparr>"

definition useS3Event :: "parameter_values \<Rightarrow> cfn_condition" where
  "useS3Event vals =
     ConditionAnd
       [ConditionEquals ''true'' (valueAsString vals srcInCurrentAccount),
        ConditionEquals ''Amazon_S3'' (valueAsString vals srcType),
        ConditionNot (ConditionEquals ''No'' (valueAsString vals srcEvent))]"

text \<open>Up to the discovery task and the grants to its role.\<close>

definition finder_part :: "string \<Rightarrow> parameter_values \<Rightarrow> Stack" where
  "finder_part runType vals =
     run [declare_parameters runType,
          add ''SrcCredentialsParam'' (SecretC (srcCred vals)),
          add ''DestCredentialsParam'' (SecretC (destCred vals)),
          add ''SrcBucket'' (BucketC (srcIBucket vals)),
          add ''DestBucket'' (BucketC (destIBucket vals)),
          add ''ECSVpc'' (VpcC (vpc vals)),
          add ''Common'' (CommonStackC (commonStack vals)),
          add ''DefaultPolicy'' (PolicyC (defaultPolicy vals)),
          add ''ECSStack'' (EcsStackC (ecsStack vals)),
          attachInlinePolicy (taskRole (taskDefinition (ecsStack vals))) (defaultPolicy vals),
          grantSendMessages (sqsQueue (commonStack vals))
            (taskRole (taskDefinition (ecsStack vals))),
          grantRead (srcIBucket vals) (taskRole (taskDefinition (ecsStack vals))),
          grantRead (destIBucket vals) (taskRole (taskDefinition (ecsStack vals)))]
       empty_stack"

text \<open>
  The EC2 branch: the worker fleet and the grants to its role. The result carries
  \<^verbatim>\<open>asgName\<close>, which stays undefined outside the branch.
\<close>

definition worker_part ::
  "string \<Rightarrow> parameter_values \<Rightarrow> Stack \<Rightarrow> error + (string option \<times> Stack)" where
  "worker_part runType vals st =
     (if runType = RunType_EC2
      then
        (case Ec2WorkerStack (ec2Props_of runType vals) of
           Inl e \<Rightarrow> Inl e
         | Inr ec2Stack \<Rightarrow>
             Inr (Some (autoScalingGroupName (workerAsg ec2Stack)),
                  run [add ''EC2WorkerStack'' (Ec2WorkerStackC ec2Stack),
                       attachInlinePolicy (role (workerAsg ec2Stack)) (defaultPolicy vals),
                       grantConsumeMessages (sqsQueue (commonStack vals))
                         (role (workerAsg ec2Stack)),
                       grantRead (srcIBucket vals) (role (workerAsg ec2Stack)),
                       grantReadWrite (destIBucket vals) (role (workerAsg ec2Stack))]
                    st))
      else Inr (None, st))"

text \<open>The dashboard, the event stack and the condition on its nested stack resource.\<close>

definition event_part :: "string \<Rightarrow> parameter_values \<Rightarrow> string option \<Rightarrow> Stack \<Rightarrow> Stack" where
  "event_part runType vals asgName =
     run [add ''DashboardStack'' (DashboardStackC (dbProps_of runType vals asgName)),
          add ''EventStack'' (EventStackC (EventStack (eventProps_of vals))),
          overrideLogicalId ''EventStack'' ''EventStack'',
          new_CfnCondition ''UseS3Event'' (useS3Event vals),
          set_cfnOptions_condition ''EventStack'' ''UseS3Event'']"

definition DataTransferS3Stack :: "cdk_context \<Rightarrow> parameter_values \<Rightarrow> error + Stack" where
  "DataTransferS3Stack ctx vals =
     (let runType = runType_of ctx
      in case worker_part runType vals (finder_part runType vals) of
           Inl e \<Rightarrow> Inl e
         | Inr (asgName, st) \<Rightarrow> Inr (event_part runType vals asgName st))"

section \<open>Observing a composition\<close>

text \<open>
  The compute branches are told apart by their construct: the discovery task of
  \<^verbatim>\<open>EcsStack\<close> and the worker fleet of \<^verbatim>\<open>Ec2WorkerStack\<close>.
\<close>

fun is_discovery :: "construct \<Rightarrow> bool" where
  "is_discovery (EcsStackC e) = True"
| "is_discovery c = False"

fun is_fleet :: "construct \<Rightarrow> bool" where
  "is_fleet (Ec2WorkerStackC w) = True"
| "is_fleet c = False"

definition is_compute :: "string \<times> construct \<Rightarrow> bool" where
  "is_compute kc = (is_discovery (snd kc) \<or> is_fleet (snd kc))"

definition compute_branches :: "Stack \<Rightarrow> string list" where
  "compute_branches st = map fst (filter is_compute (constructs st))"

definition built :: "error + Stack \<Rightarrow> (string \<times> construct) list" where
  "built res = (case res of Inl e \<Rightarrow> [] | Inr st \<Rightarrow> constructs st)"

definition discovery_built :: "error + Stack \<Rightarrow> bool" where
  "discovery_built res = list_ex is_discovery (map snd (built res))"

definition fleet_built :: "error + Stack \<Rightarrow> bool" where
  "fleet_built res = list_ex is_fleet (map snd (built res))"

definition failed :: "error + Stack \<Rightarrow> bool" where
  "failed res = (case res of Inl e \<Rightarrow> True | Inr st \<Rightarrow> False)"

definition declared :: "cdk_context \<Rightarrow> CfnParameter list" where
  "declared ctx = parameters (declare_parameters (runType_of ctx) empty_stack)"

definition has_grantee :: "principal \<Rightarrow> grant \<Rightarrow> bool" where
  "has_grantee r g = (grantee g = r)"

definition access_on :: "grant \<Rightarrow> string \<times> access" where
  "access_on g = (resource g, access g)"

definition granted_to :: "principal \<Rightarrow> Stack \<Rightarrow> (string \<times> access) list" where
  "granted_to r st = map access_on (filter (has_grantee r) (grants st))"

text \<open>
  A resource that carries a condition is created by the backend when the condition
  holds; a resource without a condition is created always.
\<close>

fun resource_condition :: "construct \<Rightarrow> string option" where
  "resource_condition (EventStackC ev) =
     Option.bind (nestedStackResource ev) cfnOptions_condition"
| "resource_condition c = None"

definition active :: "Stack \<Rightarrow> string \<Rightarrow> bool" where
  "active st ident =
     (case map_of (constructs st) ident of
        None \<Rightarrow> False
      | Some c \<Rightarrow>
          (case resource_condition c of
             None \<Rightarrow> True
           | Some cond \<Rightarrow>
               (case map_of (conditions st) cond of None \<Rightarrow> False | Some e \<Rightarrow> holds e)))"

definition not_named :: "string \<Rightarrow> string \<times> 'a \<Rightarrow> bool" where
  "not_named ident kc = (fst kc \<noteq> ident)"

definition without_event :: "Stack \<Rightarrow> Stack" where
  "without_event st =
     st\<lparr>constructs := filter (not_named ''EventStack'') (constructs st),
        conditions := filter (not_named ''UseS3Event'') (conditions st)\<rparr>"

definition others :: "error + Stack \<Rightarrow> error + Stack" where
  "others res = (case res of Inl e \<Rightarrow> Inl e | Inr st \<Rightarrow> Inr (without_event st))"

text \<open>
  The fleet the EC2 branch builds when the capacities are consistent, and the event
  stack as the constructor leaves it.
\<close>

definition fleet :: "parameter_values \<Rightarrow> Ec2WorkerStack" where
  "fleet vals =
     \<lparr>ec2Props = ec2Props_of RunType_EC2 vals,
      workerAsg = \<lparr>role = WorkerRole, autoScalingGroupName = ''WorkerAsg'',
                   scalingSignal = sqsQueue (commonStack vals)\<rparr>\<rparr>"

definition event_construct :: "parameter_values \<Rightarrow> construct" where
  "event_construct vals =
     EventStackC \<lparr>eventProps = eventProps_of vals,
                  nestedStackResource =
                    Some \<lparr>resource_logicalId = ''EventStack'',
                          cfnOptions_condition = Some ''UseS3Event''\<rparr>\<rparr>"

text \<open>
  The environment a compute construct of the stack was given, and a variable of it.
\<close>

fun construct_env :: "construct \<Rightarrow> (string \<times> string) list option" where
  "construct_env (EcsStackC e) = Some (ecs_env (ecsProps e))"
| "construct_env (Ec2WorkerStackC w) = Some (ec2_env (ec2Props w))"
| "construct_env c = None"

definition env_of :: "Stack \<Rightarrow> string \<Rightarrow> (string \<times> string) list option" where
  "env_of st ident = Option.bind (map_of (constructs st) ident) construct_env"

definition env_lookup :: "(string \<times> string) list option \<Rightarrow> string \<Rightarrow> string option" where
  "env_lookup env k = (case env of None \<Rightarrow> None | Some e \<Rightarrow> map_of e k)"

text \<open>The keys of one environment that the other does not have.\<close>

definition missing_from :: "(string \<times> string) list \<Rightarrow> (string \<times> string) list \<Rightarrow> string list" where
  "missing_from env other = filter (\<lambda>k. map_of other k = None) (map fst env)"

text \<open>Concrete inputs: contexts and parameter values.\<close>

definition no_context :: cdk_context where
  "no_context = map_of []"

definition ec2_context :: cdk_context where
  "ec2_context = map_of [(''runType'', ''EC2'')]"

definition lambda_context :: cdk_context where
  "lambda_context = map_of [(''runType'', ''Lambda'')]"

definition example_values :: parameter_values where
  "example_values =
     map_of [(''srcBucket'', ''source-bucket''),
             (''destBucket'', ''destination-bucket''),
             (''ecsClusterName'', ''transfer-cluster''),
             (''ecsVpcId'', ''vpc-bef13dc7''),
             (''ecsSubnets'', ''subnet-97bfc4cd,subnet-7ad7de32''),
             (''alarmEmail'', ''ops@example.com'')]"

definition one_subnet_values :: parameter_values where
  "one_subnet_values =
     map_of [(''srcBucket'', ''source-bucket''),
             (''destBucket'', ''destination-bucket''),
             (''ecsClusterName'', ''transfer-cluster''),
             (''ecsVpcId'', ''vpc-bef13dc7''),
             (''ecsSubnets'', ''subnet-97bfc4cd''),
             (''alarmEmail'', ''ops@example.com'')]"

definition inverted_capacity_values :: parameter_values where
  "inverted_capacity_values =
     map_of [(''srcBucket'', ''source-bucket''),
             (''destBucket'', ''destination-bucket''),
             (''ecsClusterName'', ''transfer-cluster''),
             (''ecsVpcId'', ''vpc-bef13dc7''),
             (''ecsSubnets'', ''subnet-97bfc4cd,subnet-7ad7de32''),
             (''alarmEmail'', ''ops@example.com''),
             (''minCapacity'', ''5''),
             (''maxCapacity'', ''2'')]"

definition in_account_values :: parameter_values where
  "in_account_values =
     map_of [(''srcBucket'', ''source-bucket''),
             (''destBucket'', ''destination-bucket''),
             (''ecsClusterName'', ''transfer-cluster''),
             (''ecsVpcId'', ''vpc-bef13dc7''),
             (''ecsSubnets'', ''subnet-97bfc4cd,subnet-7ad7de32''),
             (''alarmEmail'', ''ops@example.com''),
             (''srcInCurrentAccount'', ''true'')]"

section \<open>Properties\<close>

subsection \<open>The steps of the constructor, field by field\<close>

lemma run_Nil: "run [] st = st"
  by (simp add: run_def)

lemma run_Cons: "run (step # steps) st = run steps (step st)"
  by (simp add: run_def)

lemmas step_defs = declareParameter_def addToParamGroups_def addToParamLabels_def add_def
  new_CfnCondition_def attachInlinePolicy_def grantSendMessages_def grantConsumeMessages_def
  grantRead_def grantReadWrite_def at_construct_def overrideLogicalId_def
  set_cfnOptions_condition_def

lemma parameters_step:
  "parameters (declareParameter p st) = parameters st @ [p]"
  "parameters (addToParamGroups l ps st) = parameters st"
  "parameters (addToParamLabels l i st) = parameters st"
  "parameters (add ident c st) = parameters st"
  "parameters (new_CfnCondition ident e st) = parameters st"
  "parameters (attachInlinePolicy r pol st) = parameters st"
  "parameters (grantSendMessages q r st) = parameters st"
  "parameters (grantConsumeMessages q r st) = parameters st"
  "parameters (grantRead b r st) = parameters st"
  "parameters (grantReadWrite b r st) = parameters st"
  "parameters (overrideLogicalId ident new_id st) = parameters st"
  "parameters (set_cfnOptions_condition ident cond st) = parameters st"
  by (simp_all add: step_defs)

lemma constructs_step:
  "constructs (declareParameter p st) = constructs st"
  "constructs (addToParamGroups l ps st) = constructs st"
  "constructs (addToParamLabels l i st) = constructs st"
  "constructs (add ident c st) = constructs st @ [(ident, c)]"
  "constructs (new_CfnCondition ident e st) = constructs st"
  "constructs (attachInlinePolicy r pol st) = constructs st"
  "constructs (grantSendMessages q r st) = constructs st"
  "constructs (grantConsumeMessages q r st) = constructs st"
  "constructs (grantRead b r st) = constructs st"
  "constructs (grantReadWrite b r st) = constructs st"
  by (simp_all add: step_defs)

lemma conditions_step:
  "conditions (declareParameter p st) = conditions st"
  "conditions (addToParamGroups l ps st) = conditions st"
  "conditions (addToParamLabels l i st) = conditions st"
  "conditions (add ident c st) = conditions st"
  "conditions (new_CfnCondition ident e st) = conditions st @ [(ident, e)]"
  "conditions (attachInlinePolicy r pol st) = conditions st"
  "conditions (grantSendMessages q r st) = conditions st"
  "conditions (grantConsumeMessages q r st) = conditions st"
  "conditions (grantRead b r st) = conditions st"
  "conditions (grantReadWrite b r st) = conditions st"
  "conditions (overrideLogicalId ident new_id st) = conditions st"
  "conditions (set_cfnOptions_condition ident cond st) = conditions st"
  by (simp_all add: step_defs)

lemma grants_step:
  "grants (declareParameter p st) = grants st"
  "grants (addToParamGroups l ps st) = grants st"
  "grants (addToParamLabels l i st) = grants st"
  "grants (add ident c st) = grants st"
  "grants (new_CfnCondition ident e st) = grants st"
  "grants (attachInlinePolicy r pol st) = grants st"
  "grants (grantSendMessages q r st) =
     grants st @ [\<lparr>grantee = r, resource = queueId q, access = SendMessages\<rparr>]"
  "grants (grantConsumeMessages q r st) =
     grants st @ [\<lparr>grantee = r, resource = queueId q, access = ConsumeMessages\<rparr>]"
  "grants (grantRead b r st) = grants st @ [\<lparr>grantee = r, resource = bucketId b, access = Read\<rparr>]"
  "grants (grantReadWrite b r st) =
     grants st @ [\<lparr>grantee = r, resource = bucketId b, access = ReadWrite\<rparr>]"
  "grants (overrideLogicalId ident new_id st) = grants st"
  "grants (set_cfnOptions_condition ident cond st) = grants st"
  by (simp_all add: step_defs)

lemma declare_capacity_fields:
  "constructs (declare_capacity st) = constructs st"
  "conditions (declare_capacity st) = conditions st"
  "grants (declare_capacity st) = grants st"
  "parameters (declare_capacity st) = parameters st @ [maxCapacity, minCapacity, desiredCapacity]"
  by (simp_all add: declare_capacity_def run_Nil run_Cons parameters_step constructs_step
      conditions_step grants_step)

lemma declare_parameters_fields:
  "constructs (declare_parameters rt st) = constructs st"
  "conditions (declare_parameters rt st) = conditions st"
  "grants (declare_parameters rt st) = grants st"
  by (simp_all add: declare_parameters_def run_Nil run_Cons constructs_step
      conditions_step grants_step declare_capacity_fields)

lemma declare_parameters_parameters:
  "parameters (declare_parameters rt st) =
     parameters st @
     [srcType, srcBucket, srcPrefix, srcRegion, srcEndpoint, srcInCurrentAccount,
      srcCredentials, destBucket, destPrefix, destRegion, destInCurrentAccount,
      destCredentials, destStorageClass, destAcl, ecsClusterName, ecsVpcId, ecsSubnets,
      alarmEmail, includeMetadata, srcEvent, finderDepth, finderNumber, workerNumber] @
     (if rt = RunType_EC2 then [maxCapacity, minCapacity, desiredCapacity] else [])"
  by (simp add: declare_parameters_def run_Nil run_Cons parameters_step declare_capacity_fields)

lemma finder_part_fields:
  "constructs (finder_part rt vals) =
     [(''SrcCredentialsParam'', SecretC (srcCred vals)),
      (''DestCredentialsParam'', SecretC (destCred vals)),
      (''SrcBucket'', BucketC (srcIBucket vals)),
      (''DestBucket'', BucketC (destIBucket vals)),
      (''ECSVpc'', VpcC (vpc vals)),
      (''Common'', CommonStackC (commonStack vals)),
      (''DefaultPolicy'', PolicyC (defaultPolicy vals)),
      (''ECSStack'', EcsStackC (ecsStack vals))]"
  "conditions (finder_part rt vals) = []"
  "grants (finder_part rt vals) =
     [\<lparr>grantee = TaskRole, resource = ''S3TransferQueue'', access = SendMessages\<rparr>,
      \<lparr>grantee = TaskRole, resource = ''SrcBucket'', access = Read\<rparr>,
      \<lparr>grantee = TaskRole, resource = ''DestBucket'', access = Read\<rparr>]"
  by (simp_all add: finder_part_def run_Nil run_Cons constructs_step conditions_step
      grants_step declare_parameters_fields empty_stack_def ecsStack_def EcsStack_def
      commonStack_def CommonStack_def S3TransferQueue_def srcIBucket_def destIBucket_def)

subsection \<open>The composed stack\<close>

lemma Ec2WorkerStack_cases:
  "Ec2WorkerStack (ec2Props_of RunType_EC2 vals) =
     (if capacity_consistent (ec2Props_of RunType_EC2 vals) then Inr (fleet vals)
      else Inl (ValidationError ''minCapacity <= desiredCapacity <= maxCapacity''))"
  by (simp add: Ec2WorkerStack_def fleet_def ec2Props_of_def)

lemma composition_fails_iff:
  "failed (DataTransferS3Stack ctx vals) \<longleftrightarrow>
     runType_of ctx = RunType_EC2 \<and> \<not> capacity_consistent (ec2Props_of RunType_EC2 vals)"
  by (simp add: failed_def DataTransferS3Stack_def Let_def worker_part_def
      Ec2WorkerStack_cases)

lemma not_failed_Inr: "\<not> failed res \<Longrightarrow> res = Inr (projr res)"
  by (cases res) (simp_all add: failed_def)

lemma composed_constructs:
  assumes "DataTransferS3Stack ctx vals = Inr st"
  shows "constructs st =
     [(''SrcCredentialsParam'', SecretC (srcCred vals)),
      (''DestCredentialsParam'', SecretC (destCred vals)),
      (''SrcBucket'', BucketC (srcIBucket vals)),
      (''DestBucket'', BucketC (destIBucket vals)),
      (''ECSVpc'', VpcC (vpc vals)),
      (''Common'', CommonStackC (commonStack vals)),
      (''DefaultPolicy'', PolicyC (defaultPolicy vals)),
      (''ECSStack'', EcsStackC (ecsStack vals))] @
     (if runType_of ctx = RunType_EC2
      then [(''EC2WorkerStack'', Ec2WorkerStackC (fleet vals))] else []) @
     [(''DashboardStack'',
        DashboardStackC (dbProps_of (runType_of ctx) vals
          (if runType_of ctx = RunType_EC2 then Some ''WorkerAsg'' else None))),
      (''EventStack'', event_construct vals)]"
  using assms
  by (auto simp add: DataTransferS3Stack_def Let_def worker_part_def Ec2WorkerStack_cases
      event_part_def run_Nil run_Cons constructs_step finder_part_fields
      at_construct_def overrideLogicalId_def set_cfnOptions_condition_def EventStack_def
      event_construct_def fleet_def
      split: if_splits)

lemma composed_conditions:
  assumes "DataTransferS3Stack ctx vals = Inr st"
  shows "conditions st = [(''UseS3Event'', useS3Event vals)]"
  using assms
  by (auto simp add: DataTransferS3Stack_def Let_def worker_part_def Ec2WorkerStack_cases
      event_part_def run_Nil run_Cons conditions_step finder_part_fields
      split: if_splits)

lemma composed_grants:
  assumes "DataTransferS3Stack ctx vals = Inr st"
  shows "grants st =
     [\<lparr>grantee = TaskRole, resource = ''S3TransferQueue'', access = SendMessages\<rparr>,
      \<lparr>grantee = TaskRole, resource = ''SrcBucket'', access = Read\<rparr>,
      \<lparr>grantee = TaskRole, resource = ''DestBucket'', access = Read\<rparr>] @
     (if runType_of ctx = RunType_EC2
      then [\<lparr>grantee = WorkerRole, resource = ''S3TransferQueue'', access = ConsumeMessages\<rparr>,
            \<lparr>grantee = WorkerRole, resource = ''SrcBucket'', access = Read\<rparr>,
            \<lparr>grantee = WorkerRole, resource = ''DestBucket'', access = ReadWrite\<rparr>]
      else [])"
  using assms
  by (auto simp add: DataTransferS3Stack_def Let_def worker_part_def Ec2WorkerStack_cases
      event_part_def run_Nil run_Cons grants_step finder_part_fields fleet_def
      commonStack_def CommonStack_def S3TransferQueue_def srcIBucket_def destIBucket_def
      split: if_splits)

lemma composed_parameters:
  assumes "DataTransferS3Stack ctx vals = Inr st"
  shows "parameters st = declared ctx"
  using assms
  by (auto simp add: DataTransferS3Stack_def Let_def worker_part_def Ec2WorkerStack_cases
      event_part_def run_Nil run_Cons parameters_step finder_part_def declared_def
      split: if_splits)

lemma composed_event:
  assumes "DataTransferS3Stack ctx vals = Inr st"
  shows "map_of (constructs st) ''EventStack'' = Some (event_construct vals)"
    and "map_of (conditions st) ''UseS3Event'' = Some (useS3Event vals)"
    and "active st ''EventStack'' = holds (useS3Event vals)"
  by (simp_all add: active_def composed_constructs [OF assms] composed_conditions [OF assms]
      event_construct_def)

lemma built_composed:
  assumes "\<not> failed (DataTransferS3Stack ctx vals)"
  shows "built (DataTransferS3Stack ctx vals) =
     [(''SrcCredentialsParam'', SecretC (srcCred vals)),
      (''DestCredentialsParam'', SecretC (destCred vals)),
      (''SrcBucket'', BucketC (srcIBucket vals)),
      (''DestBucket'', BucketC (destIBucket vals)),
      (''ECSVpc'', VpcC (vpc vals)),
      (''Common'', CommonStackC (commonStack vals)),
      (''DefaultPolicy'', PolicyC (defaultPolicy vals)),
      (''ECSStack'', EcsStackC (ecsStack vals))] @
     (if runType_of ctx = RunType_EC2
      then [(''EC2WorkerStack'', Ec2WorkerStackC (fleet vals))] else []) @
     [(''DashboardStack'',
        DashboardStackC (dbProps_of (runType_of ctx) vals
          (if runType_of ctx = RunType_EC2 then Some ''WorkerAsg'' else None))),
      (''EventStack'', event_construct vals)]"
proof -
  have r: "DataTransferS3Stack ctx vals = Inr (projr (DataTransferS3Stack ctx vals))"
    using assms by (rule not_failed_Inr)
  have "built (DataTransferS3Stack ctx vals) =
      constructs (projr (DataTransferS3Stack ctx vals))"
    using assms by (cases "DataTransferS3Stack ctx vals") (simp_all add: built_def failed_def)
  then show ?thesis
    by (simp add: composed_constructs [OF r])
qed

lemma composed_envs:
  assumes "DataTransferS3Stack ctx vals = Inr st"
  shows "env_of st ''ECSStack'' = Some (finderEnv vals)"
    and "env_of st ''EC2WorkerStack'' =
           (if runType_of ctx = RunType_EC2 then Some (workerEnv vals) else None)"
  by (simp_all add: env_of_def composed_constructs [OF assms] ecsStack_def EcsStack_def
      ecsProps_of_def fleet_def ec2Props_of_def event_construct_def)

subsection \<open>Parameters that a construct does not read\<close>

lemmas parameter_defs = new_CfnParameter_def srcType_def srcBucket_def srcPrefix_def
  srcRegion_def srcEndpoint_def srcInCurrentAccount_def srcCredentials_def destBucket_def
  destPrefix_def destRegion_def destInCurrentAccount_def destCredentials_def
  destStorageClass_def destAcl_def ecsClusterName_def ecsVpcId_def ecsSubnets_def
  alarmEmail_def includeMetadata_def srcEvent_def finderDepth_def finderNumber_def
  workerNumber_def maxCapacity_def minCapacity_def desiredCapacity_def

lemma logicalIds:
  "logicalId srcType = ''srcType''"
  "logicalId srcBucket = ''srcBucket''"
  "logicalId srcPrefix = ''srcPrefix''"
  "logicalId srcRegion = ''srcRegion''"
  "logicalId srcEndpoint = ''srcEndpoint''"
  "logicalId srcInCurrentAccount = ''srcInCurrentAccount''"
  "logicalId srcCredentials = ''srcCredentials''"
  "logicalId destBucket = ''destBucket''"
  "logicalId destPrefix = ''destPrefix''"
  "logicalId destRegion = ''destRegion''"
  "logicalId destInCurrentAccount = ''destInCurrentAccount''"
  "logicalId destCredentials = ''destCredentials''"
  "logicalId destStorageClass = ''destStorageClass''"
  "logicalId destAcl = ''destAcl''"
  "logicalId ecsClusterName = ''ecsClusterName''"
  "logicalId ecsVpcId = ''ecsVpcId''"
  "logicalId ecsSubnets = ''ecsSubnets''"
  "logicalId alarmEmail = ''alarmEmail''"
  "logicalId includeMetadata = ''includeMetadata''"
  "logicalId srcEvent = ''srcEvent''"
  "logicalId finderDepth = ''finderDepth''"
  "logicalId finderNumber = ''finderNumber''"
  "logicalId workerNumber = ''workerNumber''"
  "logicalId maxCapacity = ''maxCapacity''"
  "logicalId minCapacity = ''minCapacity''"
  "logicalId desiredCapacity = ''desiredCapacity''"
  by (simp_all add: parameter_defs)

lemma valueAsString_other:
  "logicalId p \<noteq> k \<Longrightarrow> valueAsString (vals(k := x)) p = valueAsString vals p"
  by (simp add: valueAsString_def)

lemma valueAsNumber_other:
  "logicalId p \<noteq> k \<Longrightarrow> valueAsNumber (vals(k := x)) p = valueAsNumber vals p"
  by (simp add: valueAsNumber_def valueAsString_other)

lemma valueAsList_other:
  "logicalId p \<noteq> k \<Longrightarrow> valueAsList (vals(k := x)) p = valueAsList vals p"
  by (simp add: valueAsList_def valueAsString_other)


lemma srcEvent_independent:
  "srcCred (vals(''srcEvent'' := x)) = srcCred vals"
  "destCred (vals(''srcEvent'' := x)) = destCred vals"
  "srcIBucket (vals(''srcEvent'' := x)) = srcIBucket vals"
  "destIBucket (vals(''srcEvent'' := x)) = destIBucket vals"
  "vpc (vals(''srcEvent'' := x)) = vpc vals"
  "commonStack (vals(''srcEvent'' := x)) = commonStack vals"
  "finderEnv (vals(''srcEvent'' := x)) = finderEnv vals"
  "workerEnv (vals(''srcEvent'' := x)) = workerEnv vals"
  by (simp_all add: srcCred_def destCred_def srcIBucket_def destIBucket_def vpc_def
      commonStack_def commonProps_def finderEnv_def workerEnv_def
      valueAsString_other valueAsList_other logicalIds)

lemma srcEvent_independent_props:
  "defaultPolicy (vals(''srcEvent'' := x)) = defaultPolicy vals"
  "ecsStack (vals(''srcEvent'' := x)) = ecsStack vals"
  "ec2Props_of rt (vals(''srcEvent'' := x)) = ec2Props_of rt vals"
  "dbProps_of rt (vals(''srcEvent'' := x)) asg = dbProps_of rt vals asg"
  by (simp_all add: defaultPolicy_def ecsStack_def ecsProps_of_def ec2Props_of_def
      dbProps_of_def srcEvent_independent capacity_variable_def
      valueAsString_other valueAsList_other valueAsNumber_other logicalIds)

lemma finder_part_srcEvent:
  "finder_part rt (vals(''srcEvent'' := x)) = finder_part rt vals"
  by (simp add: finder_part_def srcEvent_independent srcEvent_independent_props)

lemma worker_part_srcEvent:
  "worker_part rt (vals(''srcEvent'' := x)) st = worker_part rt vals st"
  by (simp add: worker_part_def srcEvent_independent srcEvent_independent_props
      split: sum.splits)

lemma filter_not_named_map:
  "filter (not_named i) (map (\<lambda>kc. if fst kc = i then (fst kc, g (snd kc)) else kc) xs) =
     filter (not_named i) xs"
  by (induction xs) (simp_all add: not_named_def)

lemma without_event_steps:
  "without_event (at_construct ''EventStack'' f st) = without_event st"
  "without_event (new_CfnCondition ''UseS3Event'' e st) = without_event st"
  "without_event (add ''EventStack'' c st) = without_event st"
  by (simp_all add: without_event_def at_construct_def new_CfnCondition_def add_def
      filter_not_named_map not_named_def)

lemma without_event_event_part:
  "without_event (event_part rt vals asg st) =
     without_event (add ''DashboardStack'' (DashboardStackC (dbProps_of rt vals asg)) st)"
  by (simp add: event_part_def run_Nil run_Cons overrideLogicalId_def
      set_cfnOptions_condition_def without_event_steps)

lemma others_srcEvent:
  "others (DataTransferS3Stack ctx (vals(''srcEvent'' := x))) =
     others (DataTransferS3Stack ctx vals)"
  by (simp add: others_def DataTransferS3Stack_def Let_def finder_part_srcEvent
      worker_part_srcEvent without_event_event_part srcEvent_independent_props
      split: sum.splits prod.splits)

subsection \<open>The concrete inputs\<close>

lemma email_ok: "matches alarmEmailPattern ''ops@example.com''"
  by code_simp

lemma numbers:
  "number_of_string ''20'' = Some 20"
  "number_of_string ''1'' = Some 1"
  "number_of_string ''5'' = Some 5"
  "number_of_string ''2'' = Some 2"
  by code_simp+

lemma ids_ok:
  "matches (resource_id ''vpc-'') ''vpc-bef13dc7''"
  "matches (resource_id ''subnet-'') ''subnet-97bfc4cd''"
  "matches (resource_id ''subnet-'') ''subnet-7ad7de32''"
  "\<not> matches (resource_id ''subnet-'') []"
  by code_simp+

lemma subnet_lists:
  "subnet_ids ''subnet-97bfc4cd''"
  "subnet_ids ''subnet-97bfc4cd,subnet-7ad7de32''"
  "\<not> subnet_ids []"
  "list_of_string ''subnet-97bfc4cd'' = [''subnet-97bfc4cd'']"
  "list_of_string ''subnet-97bfc4cd,subnet-7ad7de32'' = [''subnet-97bfc4cd'', ''subnet-7ad7de32'']"
  by (simp_all add: subnet_ids_def list_of_string_def ids_ok del: matches.simps)

lemma runType_contexts:
  "runType_of no_context = RunType_EC2"
  "runType_of ec2_context = RunType_EC2"
  "runType_of lambda_context = RunType_LAMBDA"
  "RunType_LAMBDA \<noteq> RunType_EC2"
  by (simp_all add: runType_of_def tryGetContext_def no_context_def ec2_context_def
      lambda_context_def RunType_EC2_def RunType_LAMBDA_def)

lemma validate_declared:
  "validate (declared ctx) vals =
     concat (map (check_parameter vals)
       [srcType, srcBucket, srcPrefix, srcRegion, srcEndpoint, srcInCurrentAccount,
        srcCredentials, destBucket, destPrefix, destRegion, destInCurrentAccount,
        destCredentials, destStorageClass, destAcl, ecsClusterName, ecsVpcId, ecsSubnets,
        alarmEmail, includeMetadata, srcEvent, finderDepth, finderNumber, workerNumber]) @
     (if runType_of ctx = RunType_EC2
      then concat (map (check_parameter vals) [maxCapacity, minCapacity, desiredCapacity])
      else [])"
  by (simp add: validate_def declared_def declare_parameters_parameters empty_stack_def)

lemma example_valid: "validate (declared ctx) example_values = []"
  by (simp add: validate_declared check_parameter_def valueAsString_def well_typed_def
      example_values_def parameter_defs email_ok numbers ids_ok subnet_lists
      del: matches.simps number_of_string.simps)


lemma capacity_values:
  "capacity_consistent (ec2Props_of RunType_EC2 example_values)"
  "capacity_consistent (ec2Props_of RunType_EC2 one_subnet_values)"
  "capacity_consistent (ec2Props_of RunType_EC2 in_account_values)"
  "\<not> capacity_consistent (ec2Props_of RunType_EC2 inverted_capacity_values)"
  by (simp_all add: capacity_consistent_def nonneg_def ordered_def ec2Props_of_def
      capacity_variable_def valueAsNumber_def valueAsString_def example_values_def
      one_subnet_values_def in_account_values_def inverted_capacity_values_def
      parameter_defs numbers del: number_of_string.simps)



lemma absent_subnets_rejected:
  "validate (declared ctx) (example_values(''ecsSubnets'' := None)) =
     [TypeMismatch ''ecsSubnets'']"
  by (simp add: validate_declared check_parameter_def valueAsString_def well_typed_def
      example_values_def parameter_defs email_ok numbers ids_ok subnet_lists
      del: matches.simps number_of_string.simps)


section \<open>The claims\<close>

subsection \<open>C1: the compute branches\<close>

text \<open>
  C1, as stated, fails: exactly one compute branch is not what the stack instantiates.
  With the runtime mode EC2 and a valid parameter set, the composed stack holds the
  discovery task of \<^verbatim>\<open>ECSStack\<close> and the worker fleet of \<^verbatim>\<open>EC2WorkerStack\<close>.
\<close>

theorem both_branches_counterexample:
  "validate (declared ec2_context) example_values = []
   \<and> discovery_built (DataTransferS3Stack ec2_context example_values)
   \<and> fleet_built (DataTransferS3Stack ec2_context example_values)"
proof -
  have nf: "\<not> failed (DataTransferS3Stack ec2_context example_values)"
    by (simp add: composition_fails_iff capacity_values)
  show ?thesis
    by (simp add: example_valid discovery_built_def fleet_built_def built_composed [OF nf]
        runType_contexts event_construct_def)
qed

text \<open>
  C1, amended: in every composition that succeeds the discovery task is instantiated,
  whatever the runtime mode, and the worker fleet is instantiated exactly when the mode
  is EC2. So the compute constructs are \<^verbatim>\<open>ECSStack\<close> and \<^verbatim>\<open>EC2WorkerStack\<close> in
  EC2 mode, and \<^verbatim>\<open>ECSStack\<close> alone in any other mode.
\<close>

theorem compute_branches_by_mode:
  assumes "DataTransferS3Stack ctx vals = Inr st"
  shows "compute_branches st =
           (if runType_of ctx = RunType_EC2 then [''ECSStack'', ''EC2WorkerStack'']
            else [''ECSStack''])"
  by (simp add: compute_branches_def is_compute_def composed_constructs [OF assms]
      event_construct_def)

theorem compute_branches_by_mode_witness:
  "DataTransferS3Stack lambda_context example_values =
     Inr (projr (DataTransferS3Stack lambda_context example_values))
   \<and> compute_branches (projr (DataTransferS3Stack lambda_context example_values)) =
       [''ECSStack'']
   \<and> DataTransferS3Stack ec2_context example_values =
       Inr (projr (DataTransferS3Stack ec2_context example_values))
   \<and> compute_branches (projr (DataTransferS3Stack ec2_context example_values)) =
       [''ECSStack'', ''EC2WorkerStack'']"
proof -
  have l: "DataTransferS3Stack lambda_context example_values =
      Inr (projr (DataTransferS3Stack lambda_context example_values))"
    by (rule not_failed_Inr) (simp add: composition_fails_iff runType_contexts)
  have e: "DataTransferS3Stack ec2_context example_values =
      Inr (projr (DataTransferS3Stack ec2_context example_values))"
    by (rule not_failed_Inr) (simp add: composition_fails_iff capacity_values)
  show ?thesis
    using l e compute_branches_by_mode [OF l] compute_branches_by_mode [OF e]
    by (simp add: runType_contexts)
qed

subsection \<open>C2: inconsistent capacities\<close>

text \<open>
  C2: in EC2 mode, when the minimum capacity exceeds the maximum capacity the composition
  fails with a validation error; the failed composition has no construct, so no fleet
  resource, and the stack as it stands when the fleet constructor is called holds no
  fleet resource either. The check itself is the one of the fleet constructor as the
  spec describes it.
\<close>

theorem inconsistent_capacity_fails:
  assumes "runType_of ctx = RunType_EC2"
    and "valueAsNumber vals minCapacity = Some lo"
    and "valueAsNumber vals maxCapacity = Some hi"
    and "hi < lo"
  shows "DataTransferS3Stack ctx vals =
           Inl (ValidationError ''minCapacity <= desiredCapacity <= maxCapacity'')
         \<and> built (DataTransferS3Stack ctx vals) = []
         \<and> \<not> fleet_built (DataTransferS3Stack ctx vals)
         \<and> \<not> list_ex is_fleet (map snd (constructs (finder_part (runType_of ctx) vals)))"
proof -
  have "\<not> capacity_consistent (ec2Props_of RunType_EC2 vals)"
    using assms
    by (simp add: capacity_consistent_def ordered_def ec2Props_of_def capacity_variable_def)
  then have f: "DataTransferS3Stack ctx vals =
      Inl (ValidationError ''minCapacity <= desiredCapacity <= maxCapacity'')"
    using assms(1)
    by (simp add: DataTransferS3Stack_def Let_def worker_part_def Ec2WorkerStack_cases)
  show ?thesis
    by (simp add: f built_def fleet_built_def finder_part_fields)
qed

theorem inconsistent_capacity_fails_witness:
  "runType_of ec2_context = RunType_EC2
   \<and> valueAsNumber inverted_capacity_values minCapacity = Some 5
   \<and> valueAsNumber inverted_capacity_values maxCapacity = Some 2
   \<and> (2::int) < 5
   \<and> DataTransferS3Stack ec2_context inverted_capacity_values =
       Inl (ValidationError ''minCapacity <= desiredCapacity <= maxCapacity'')
   \<and> built (DataTransferS3Stack ec2_context inverted_capacity_values) = []
   \<and> \<not> fleet_built (DataTransferS3Stack ec2_context inverted_capacity_values)"
proof -
  have r: "runType_of ec2_context = RunType_EC2"
    by (rule runType_contexts)
  have lo: "valueAsNumber inverted_capacity_values minCapacity = Some 5"
    by (simp add: valueAsNumber_def valueAsString_def inverted_capacity_values_def
        parameter_defs numbers del: number_of_string.simps)
  have hi: "valueAsNumber inverted_capacity_values maxCapacity = Some 2"
    by (simp add: valueAsNumber_def valueAsString_def inverted_capacity_values_def
        parameter_defs numbers del: number_of_string.simps)
  have lt: "(2::int) < 5"
    by simp
  show ?thesis
    using inconsistent_capacity_fails [OF r lo hi lt] r lo hi
    by (simp add: built_def fleet_built_def)
qed

subsection \<open>C3: the event trigger predicate\<close>

text \<open>
  C3: the condition \<^verbatim>\<open>UseS3Event\<close> holds exactly when the source is in the current
  account, the source type is \<^verbatim>\<open>Amazon_S3\<close> and the trigger mode is not \<^verbatim>\<open>No\<close>.
  The three conditions are independent, so this is the agreement on all eight
  combinations.
\<close>

theorem event_trigger_predicate:
  "holds (useS3Event vals) \<longleftrightarrow>
     valueAsString vals srcInCurrentAccount = ''true''
     \<and> valueAsString vals srcType = ''Amazon_S3''
     \<and> valueAsString vals srcEvent \<noteq> ''No''"
  by (auto simp add: useS3Event_def)

theorem event_trigger_predicate_witness:
  "holds (useS3Event (in_account_values(''srcEvent'' \<mapsto> ''Create'')))
   \<and> \<not> holds (useS3Event in_account_values)
   \<and> \<not> holds (useS3Event (example_values(''srcEvent'' \<mapsto> ''Create'')))
   \<and> \<not> holds (useS3Event (in_account_values(''srcEvent'' \<mapsto> ''Create'',
                                               ''srcType'' \<mapsto> ''Aliyun_OSS'')))"
  using event_trigger_predicate [of "in_account_values(''srcEvent'' \<mapsto> ''Create'')"]
    event_trigger_predicate [of in_account_values]
    event_trigger_predicate [of "example_values(''srcEvent'' \<mapsto> ''Create'')"]
    event_trigger_predicate [of "in_account_values(''srcEvent'' \<mapsto> ''Create'',
                                                   ''srcType'' \<mapsto> ''Aliyun_OSS'')"]
  by (simp add: valueAsString_def in_account_values_def example_values_def parameter_defs)

subsection \<open>C4: the alarm on the dead-letter queue\<close>

text \<open>
  C4: the alarm watches the number of visible messages of the dead-letter queue, with
  threshold 0, the comparison strictly greater and one evaluation period; whatever the
  earlier datapoints, it fires exactly when the count of the last period exceeds 0. Its
  action is the alarm topic, to which the alarm email is subscribed.
\<close>

theorem dlq_alarm_zero_tolerance:
  "metric (alarmDLQ (CommonStack ps)) =
     metricApproximateNumberOfMessagesVisible (sqsQueueDLQ (CommonStack ps))
   \<and> threshold (alarmDLQ (CommonStack ps)) = 0
   \<and> comparisonOperator (alarmDLQ (CommonStack ps)) = GREATER_THAN_THRESHOLD
   \<and> evaluationPeriods (alarmDLQ (CommonStack ps)) = 1
   \<and> (fires (alarmDLQ (CommonStack ps)) (history @ [count]) \<longleftrightarrow> 0 < count)
   \<and> alarmActions (alarmDLQ (CommonStack ps)) = [topicId (alarmTopic (CommonStack ps))]
   \<and> subscriptions (alarmTopic (CommonStack ps)) = [common_alarmEmail ps]"
  by (simp add: CommonStack_def S3TransferDLQAlarm_def S3TransferAlarmTopic_def fires_def
      last_periods_def)

theorem dlq_alarm_zero_tolerance_witness:
  "fires (alarmDLQ (CommonStack \<lparr>common_alarmEmail = ''ops@example.com''\<rparr>)) [0, 0, 1]
   \<and> \<not> fires (alarmDLQ (CommonStack \<lparr>common_alarmEmail = ''ops@example.com''\<rparr>)) [3, 1, 0]"
  using dlq_alarm_zero_tolerance [of "\<lparr>common_alarmEmail = ''ops@example.com''\<rparr>" "[0, 0]" 1]
    dlq_alarm_zero_tolerance [of "\<lparr>common_alarmEmail = ''ops@example.com''\<rparr>" "[3, 1]" 0]
  by simp

subsection \<open>C5: the grants to the two roles\<close>

text \<open>
  C5: in every composition that succeeds, the role of the discovery task is granted
  sending on the work queue, reading the source bucket and reading the destination
  bucket, and nothing else; the role of the worker fleet, which exists in EC2 mode, is
  granted consuming from the work queue, reading the source bucket and reading and
  writing the destination bucket, and nothing else. No role has both queue grants.
\<close>

theorem grants_asymmetric:
  assumes "DataTransferS3Stack ctx vals = Inr st"
  shows "granted_to TaskRole st =
           [(queueId (sqsQueue (commonStack vals)), SendMessages),
            (bucketId (srcIBucket vals), Read),
            (bucketId (destIBucket vals), Read)]
         \<and> granted_to WorkerRole st =
           (if runType_of ctx = RunType_EC2
            then [(queueId (sqsQueue (commonStack vals)), ConsumeMessages),
                  (bucketId (srcIBucket vals), Read),
                  (bucketId (destIBucket vals), ReadWrite)]
            else [])"
  by (simp add: granted_to_def has_grantee_def access_on_def composed_grants [OF assms]
      commonStack_def CommonStack_def S3TransferQueue_def srcIBucket_def destIBucket_def)

theorem grants_asymmetric_witness:
  "DataTransferS3Stack ec2_context example_values =
     Inr (projr (DataTransferS3Stack ec2_context example_values))
   \<and> granted_to TaskRole (projr (DataTransferS3Stack ec2_context example_values)) =
       [(''S3TransferQueue'', SendMessages), (''SrcBucket'', Read), (''DestBucket'', Read)]
   \<and> granted_to WorkerRole (projr (DataTransferS3Stack ec2_context example_values)) =
       [(''S3TransferQueue'', ConsumeMessages), (''SrcBucket'', Read),
        (''DestBucket'', ReadWrite)]"
proof -
  have e: "DataTransferS3Stack ec2_context example_values =
      Inr (projr (DataTransferS3Stack ec2_context example_values))"
    by (rule not_failed_Inr) (simp add: composition_fails_iff capacity_values)
  show ?thesis
    using e grants_asymmetric [OF e]
    by (simp add: runType_contexts commonStack_def CommonStack_def S3TransferQueue_def
        srcIBucket_def destIBucket_def)
qed

subsection \<open>C6: the event stack is always specified\<close>

text \<open>
  C6: changing only the trigger mode changes nothing of a composition but the event
  stack and its condition: the outcome (failure, or the stack without these two) is the
  same. In every composition that succeeds the event stack is there, whatever the
  condition evaluates to, built in full from its four props (the trigger mode, the
  source bucket, the source prefix and the work queue with its dead-letter queue) and
  with the condition \<^verbatim>\<open>UseS3Event\<close> on its resource; it is active exactly when that
  condition holds.
\<close>

theorem event_stack_always_specified:
  "others (DataTransferS3Stack ctx (vals(''srcEvent'' \<mapsto> mode))) =
     others (DataTransferS3Stack ctx vals)
   \<and> (DataTransferS3Stack ctx vals = Inr st \<longrightarrow>
        map_of (constructs st) ''EventStack'' =
          Some (EventStackC
                 \<lparr>eventProps =
                    \<lparr>ev_events = valueAsString vals srcEvent,
                     ev_bucket =
                       \<lparr>bucketId = ''SrcBucket'', bucketName = valueAsString vals srcBucket\<rparr>,
                     ev_prefix = valueAsString vals srcPrefix,
                     ev_queue =
                       Queue ''S3TransferQueue''
                         (Some (Duration_minutes 15))
                         (Some (Duration_days 14))
                         None
                         (Some (DeadLetterQueue
                                 (Queue ''S3TransferQueueDLQ''
                                    (Some (Duration_minutes 30))
                                    (Some (Duration_days 14))
                                    (Some KMS_MANAGED)
                                    None)
                                 5))\<rparr>,
                  nestedStackResource =
                    Some \<lparr>resource_logicalId = ''EventStack'',
                          cfnOptions_condition = Some ''UseS3Event''\<rparr>\<rparr>)
        \<and> map_of (conditions st) ''UseS3Event'' = Some (useS3Event vals)
        \<and> (active st ''EventStack'' \<longleftrightarrow> holds (useS3Event vals)))"
  using composed_event [of ctx vals st]
  by (simp add: others_srcEvent event_construct_def eventProps_of_def srcIBucket_def
      commonStack_def CommonStack_def S3TransferQueue_def S3TransferQueueDLQ_def)

theorem event_stack_always_specified_witness:
  "DataTransferS3Stack ec2_context in_account_values =
     Inr (projr (DataTransferS3Stack ec2_context in_account_values))
   \<and> DataTransferS3Stack ec2_context (in_account_values(''srcEvent'' \<mapsto> ''Create'')) =
     Inr (projr (DataTransferS3Stack ec2_context
                  (in_account_values(''srcEvent'' \<mapsto> ''Create''))))
   \<and> others (DataTransferS3Stack ec2_context (in_account_values(''srcEvent'' \<mapsto> ''Create''))) =
       others (DataTransferS3Stack ec2_context in_account_values)
   \<and> \<not> active (projr (DataTransferS3Stack ec2_context in_account_values)) ''EventStack''
   \<and> map_of (constructs (projr (DataTransferS3Stack ec2_context in_account_values)))
        ''EventStack'' =
       Some (EventStackC
              \<lparr>eventProps =
                 \<lparr>ev_events = ''No'',
                  ev_bucket = \<lparr>bucketId = ''SrcBucket'', bucketName = ''source-bucket''\<rparr>,
                  ev_prefix = [],
                  ev_queue = S3TransferQueue\<rparr>,
               nestedStackResource =
                 Some \<lparr>resource_logicalId = ''EventStack'',
                       cfnOptions_condition = Some ''UseS3Event''\<rparr>\<rparr>)
   \<and> active (projr (DataTransferS3Stack ec2_context
                      (in_account_values(''srcEvent'' \<mapsto> ''Create'')))) ''EventStack''
   \<and> map_of (constructs (projr (DataTransferS3Stack ec2_context
                      (in_account_values(''srcEvent'' \<mapsto> ''Create''))))) ''EventStack'' =
       Some (EventStackC
              \<lparr>eventProps =
                 \<lparr>ev_events = ''Create'',
                  ev_bucket = \<lparr>bucketId = ''SrcBucket'', bucketName = ''source-bucket''\<rparr>,
                  ev_prefix = [],
                  ev_queue = S3TransferQueue\<rparr>,
               nestedStackResource =
                 Some \<lparr>resource_logicalId = ''EventStack'',
                       cfnOptions_condition = Some ''UseS3Event''\<rparr>\<rparr>)"
proof -
  have a: "DataTransferS3Stack ec2_context in_account_values =
      Inr (projr (DataTransferS3Stack ec2_context in_account_values))"
    by (rule not_failed_Inr) (simp add: composition_fails_iff capacity_values)
  have b: "DataTransferS3Stack ec2_context (in_account_values(''srcEvent'' \<mapsto> ''Create'')) =
      Inr (projr (DataTransferS3Stack ec2_context
                   (in_account_values(''srcEvent'' \<mapsto> ''Create''))))"
    by (rule not_failed_Inr)
      (simp add: composition_fails_iff srcEvent_independent_props capacity_values)
  have off: "\<not> holds (useS3Event in_account_values)"
    by (simp add: useS3Event_def valueAsString_def in_account_values_def parameter_defs)
  have on: "holds (useS3Event (in_account_values(''srcEvent'' \<mapsto> ''Create'')))"
    by (simp add: useS3Event_def valueAsString_def in_account_values_def parameter_defs)
  have v: "valueAsString in_account_values srcEvent = ''No''"
    "valueAsString in_account_values srcBucket = ''source-bucket''"
    "valueAsString in_account_values srcPrefix = []"
    "valueAsString (in_account_values(''srcEvent'' \<mapsto> ''Create'')) srcEvent = ''Create''"
    "valueAsString (in_account_values(''srcEvent'' \<mapsto> ''Create'')) srcBucket = ''source-bucket''"
    "valueAsString (in_account_values(''srcEvent'' \<mapsto> ''Create'')) srcPrefix = []"
    by (simp_all add: valueAsString_def in_account_values_def parameter_defs)
  show ?thesis
    using a b off on
      event_stack_always_specified [of ec2_context in_account_values "''Create''"
        "projr (DataTransferS3Stack ec2_context in_account_values)"]
      event_stack_always_specified [of ec2_context
        "in_account_values(''srcEvent'' \<mapsto> ''Create'')" "''Create''"
        "projr (DataTransferS3Stack ec2_context
                 (in_account_values(''srcEvent'' \<mapsto> ''Create'')))"]
    by (simp add: v S3TransferQueue_def S3TransferQueueDLQ_def)
qed

subsection \<open>C7: the two environments\<close>

text \<open>
  C7, as stated, fails: the environment the main stack hands to the worker fleet is not
  a superset of the one it hands to the discovery task. In a composed stack of EC2 mode
  the discovery task has the region as \<^verbatim>\<open>AWS_DEFAULT_REGION\<close>; the environment of the
  worker fleet has no such variable.
\<close>

theorem worker_env_superset_counterexample:
  "DataTransferS3Stack ec2_context example_values =
     Inr (projr (DataTransferS3Stack ec2_context example_values))
   \<and> env_lookup (env_of (projr (DataTransferS3Stack ec2_context example_values)) ''ECSStack'')
        ''AWS_DEFAULT_REGION'' = Some Aws_REGION
   \<and> env_of (projr (DataTransferS3Stack ec2_context example_values)) ''EC2WorkerStack'' \<noteq> None
   \<and> env_lookup (env_of (projr (DataTransferS3Stack ec2_context example_values))
                  ''EC2WorkerStack'')
        ''AWS_DEFAULT_REGION'' = None"
proof -
  have e: "DataTransferS3Stack ec2_context example_values =
      Inr (projr (DataTransferS3Stack ec2_context example_values))"
    by (rule not_failed_Inr) (simp add: composition_fails_iff capacity_values)
  show ?thesis
    using e
    by (simp add: composed_envs [OF e] runType_contexts env_lookup_def finderEnv_def
        workerEnv_def)
qed

text \<open>
  C7, amended: in every composition that succeeds, the environment the main stack hands
  to the discovery task holds the region, the name of the job table, the name of the
  queue, the source type and every location and credential field of source and
  destination (bucket, prefix, region, endpoint, credentials, in-current-account), and
  the two finder settings. The environment it hands to the worker fleet, which exists in
  EC2 mode, holds every one of these variables but the region, with the same value, and
  in addition the storage class, the ACL, the metadata flag and the number of worker
  threads. What the fleet constructor adds when it starts the worker process is not in
  the sources and not stated.
\<close>

theorem worker_env_contract:
  assumes "DataTransferS3Stack ctx vals = Inr st"
  shows "env_of st ''ECSStack'' = Some (finderEnv vals)
         \<and> finderEnv vals =
             [(''AWS_DEFAULT_REGION'', Aws_REGION),
              (''JOB_TABLE_NAME'', ''S3TransferTable''),
              (''JOB_QUEUE_NAME'', ''S3TransferQueue''),
              (''SOURCE_TYPE'', valueAsString vals srcType),
              (''SRC_BUCKET'', valueAsString vals srcBucket),
              (''SRC_PREFIX'', valueAsString vals srcPrefix),
              (''SRC_REGION'', valueAsString vals srcRegion),
              (''SRC_ENDPOINT'', valueAsString vals srcEndpoint),
              (''SRC_CREDENTIALS'', valueAsString vals srcCredentials),
              (''SRC_IN_CURRENT_ACCOUNT'', valueAsString vals srcInCurrentAccount),
              (''DEST_BUCKET'', valueAsString vals destBucket),
              (''DEST_PREFIX'', valueAsString vals destPrefix),
              (''DEST_REGION'', valueAsString vals destRegion),
              (''DEST_CREDENTIALS'', valueAsString vals destCredentials),
              (''DEST_IN_CURRENT_ACCOUNT'', valueAsString vals destInCurrentAccount),
              (''FINDER_DEPTH'', valueAsString vals finderDepth),
              (''FINDER_NUMBER'', valueAsString vals finderNumber)]
         \<and> env_of st ''EC2WorkerStack'' =
             (if runType_of ctx = RunType_EC2 then Some (workerEnv vals) else None)
         \<and> workerEnv vals =
             [(''JOB_TABLE_NAME'', ''S3TransferTable''),
              (''JOB_QUEUE_NAME'', ''S3TransferQueue''),
              (''SOURCE_TYPE'', valueAsString vals srcType),
              (''SRC_BUCKET'', valueAsString vals srcBucket),
              (''SRC_PREFIX'', valueAsString vals srcPrefix),
              (''SRC_REGION'', valueAsString vals srcRegion),
              (''SRC_ENDPOINT'', valueAsString vals srcEndpoint),
              (''SRC_CREDENTIALS'', valueAsString vals srcCredentials),
              (''SRC_IN_CURRENT_ACCOUNT'', valueAsString vals srcInCurrentAccount),
              (''DEST_BUCKET'', valueAsString vals destBucket),
              (''DEST_PREFIX'', valueAsString vals destPrefix),
              (''DEST_REGION'', valueAsString vals destRegion),
              (''DEST_CREDENTIALS'', valueAsString vals destCredentials),
              (''DEST_IN_CURRENT_ACCOUNT'', valueAsString vals destInCurrentAccount),
              (''DEST_STORAGE_CLASS'', valueAsString vals destStorageClass),
              (''DEST_ACL'', valueAsString vals destAcl),
              (''FINDER_DEPTH'', valueAsString vals finderDepth),
              (''FINDER_NUMBER'', valueAsString vals finderNumber),
              (''WORKER_NUMBER'', valueAsString vals workerNumber),
              (''INCLUDE_METADATA'', valueAsString vals includeMetadata)]
         \<and> missing_from (finderEnv vals) (workerEnv vals) = [''AWS_DEFAULT_REGION'']
         \<and> missing_from (workerEnv vals) (finderEnv vals) =
             [''DEST_STORAGE_CLASS'', ''DEST_ACL'', ''WORKER_NUMBER'', ''INCLUDE_METADATA'']
         \<and> (map_of (finderEnv vals))(''AWS_DEFAULT_REGION'' := None)
             \<subseteq>\<^sub>m map_of (workerEnv vals)"
proof -
  have f: "finderEnv vals =
             [(''AWS_DEFAULT_REGION'', Aws_REGION),
              (''JOB_TABLE_NAME'', ''S3TransferTable''),
              (''JOB_QUEUE_NAME'', ''S3TransferQueue''),
              (''SOURCE_TYPE'', valueAsString vals srcType),
              (''SRC_BUCKET'', valueAsString vals srcBucket),
              (''SRC_PREFIX'', valueAsString vals srcPrefix),
              (''SRC_REGION'', valueAsString vals srcRegion),
              (''SRC_ENDPOINT'', valueAsString vals srcEndpoint),
              (''SRC_CREDENTIALS'', valueAsString vals srcCredentials),
              (''SRC_IN_CURRENT_ACCOUNT'', valueAsString vals srcInCurrentAccount),
              (''DEST_BUCKET'', valueAsString vals destBucket),
              (''DEST_PREFIX'', valueAsString vals destPrefix),
              (''DEST_REGION'', valueAsString vals destRegion),
              (''DEST_CREDENTIALS'', valueAsString vals destCredentials),
              (''DEST_IN_CURRENT_ACCOUNT'', valueAsString vals destInCurrentAccount),
              (''FINDER_DEPTH'', valueAsString vals finderDepth),
              (''FINDER_NUMBER'', valueAsString vals finderNumber)]"
    by (simp add: finderEnv_def tableName_def queueName_def commonStack_def CommonStack_def
        S3TransferTable_def S3TransferQueue_def)
  have w: "workerEnv vals =
             [(''JOB_TABLE_NAME'', ''S3TransferTable''),
              (''JOB_QUEUE_NAME'', ''S3TransferQueue''),
              (''SOURCE_TYPE'', valueAsString vals srcType),
              (''SRC_BUCKET'', valueAsString vals srcBucket),
              (''SRC_PREFIX'', valueAsString vals srcPrefix),
              (''SRC_REGION'', valueAsString vals srcRegion),
              (''SRC_ENDPOINT'', valueAsString vals srcEndpoint),
              (''SRC_CREDENTIALS'', valueAsString vals srcCredentials),
              (''SRC_IN_CURRENT_ACCOUNT'', valueAsString vals srcInCurrentAccount),
              (''DEST_BUCKET'', valueAsString vals destBucket),
              (''DEST_PREFIX'', valueAsString vals destPrefix),
              (''DEST_REGION'', valueAsString vals destRegion),
              (''DEST_CREDENTIALS'', valueAsString vals destCredentials),
              (''DEST_IN_CURRENT_ACCOUNT'', valueAsString vals destInCurrentAccount),
              (''DEST_STORAGE_CLASS'', valueAsString vals destStorageClass),
              (''DEST_ACL'', valueAsString vals destAcl),
              (''FINDER_DEPTH'', valueAsString vals finderDepth),
              (''FINDER_NUMBER'', valueAsString vals finderNumber),
              (''WORKER_NUMBER'', valueAsString vals workerNumber),
              (''INCLUDE_METADATA'', valueAsString vals includeMetadata)]"
    by (simp add: workerEnv_def tableName_def queueName_def commonStack_def CommonStack_def
        S3TransferTable_def S3TransferQueue_def)
  have m1: "missing_from (finderEnv vals) (workerEnv vals) = [''AWS_DEFAULT_REGION'']"
    by (simp add: missing_from_def finderEnv_def workerEnv_def)
  have m2: "missing_from (workerEnv vals) (finderEnv vals) =
       [''DEST_STORAGE_CLASS'', ''DEST_ACL'', ''WORKER_NUMBER'', ''INCLUDE_METADATA'']"
    by (simp add: missing_from_def finderEnv_def workerEnv_def)
  have le: "(map_of (finderEnv vals))(''AWS_DEFAULT_REGION'' := None) \<subseteq>\<^sub>m map_of (workerEnv vals)"
    by (simp add: finderEnv_def workerEnv_def map_le_def)
  show ?thesis
    using f w m1 m2 le composed_envs [OF assms] by blast
qed

theorem worker_env_contract_witness:
  "DataTransferS3Stack ec2_context example_values =
     Inr (projr (DataTransferS3Stack ec2_context example_values))
   \<and> env_of (projr (DataTransferS3Stack ec2_context example_values)) ''ECSStack'' =
       Some [(''AWS_DEFAULT_REGION'', Aws_REGION),
             (''JOB_TABLE_NAME'', ''S3TransferTable''),
             (''JOB_QUEUE_NAME'', ''S3TransferQueue''),
             (''SOURCE_TYPE'', ''Amazon_S3''),
             (''SRC_BUCKET'', ''source-bucket''),
             (''SRC_PREFIX'', []),
             (''SRC_REGION'', []),
             (''SRC_ENDPOINT'', []),
             (''SRC_CREDENTIALS'', []),
             (''SRC_IN_CURRENT_ACCOUNT'', ''false''),
             (''DEST_BUCKET'', ''destination-bucket''),
             (''DEST_PREFIX'', []),
             (''DEST_REGION'', []),
             (''DEST_CREDENTIALS'', []),
             (''DEST_IN_CURRENT_ACCOUNT'', ''true''),
             (''FINDER_DEPTH'', ''0''),
             (''FINDER_NUMBER'', ''1'')]
   \<and> env_of (projr (DataTransferS3Stack ec2_context example_values)) ''EC2WorkerStack'' =
       Some [(''JOB_TABLE_NAME'', ''S3TransferTable''),
             (''JOB_QUEUE_NAME'', ''S3TransferQueue''),
             (''SOURCE_TYPE'', ''Amazon_S3''),
             (''SRC_BUCKET'', ''source-bucket''),
             (''SRC_PREFIX'', []),
             (''SRC_REGION'', []),
             (''SRC_ENDPOINT'', []),
             (''SRC_CREDENTIALS'', []),
             (''SRC_IN_CURRENT_ACCOUNT'', ''false''),
             (''DEST_BUCKET'', ''destination-bucket''),
             (''DEST_PREFIX'', []),
             (''DEST_REGION'', []),
             (''DEST_CREDENTIALS'', []),
             (''DEST_IN_CURRENT_ACCOUNT'', ''true''),
             (''DEST_STORAGE_CLASS'', ''STANDARD''),
             (''DEST_ACL'', ''bucket-owner-full-control''),
             (''FINDER_DEPTH'', ''0''),
             (''FINDER_NUMBER'', ''1''),
             (''WORKER_NUMBER'', ''4''),
             (''INCLUDE_METADATA'', ''true'')]"
proof -
  have e: "DataTransferS3Stack ec2_context example_values =
      Inr (projr (DataTransferS3Stack ec2_context example_values))"
    by (rule not_failed_Inr) (simp add: composition_fails_iff capacity_values)
  have v: "valueAsString example_values srcType = ''Amazon_S3''"
    "valueAsString example_values srcBucket = ''source-bucket''"
    "valueAsString example_values srcPrefix = []"
    "valueAsString example_values srcRegion = []"
    "valueAsString example_values srcEndpoint = []"
    "valueAsString example_values srcCredentials = []"
    "valueAsString example_values srcInCurrentAccount = ''false''"
    "valueAsString example_values destBucket = ''destination-bucket''"
    "valueAsString example_values destPrefix = []"
    "valueAsString example_values destRegion = []"
    "valueAsString example_values destCredentials = []"
    "valueAsString example_values destInCurrentAccount = ''true''"
    "valueAsString example_values destStorageClass = ''STANDARD''"
    "valueAsString example_values destAcl = ''bucket-owner-full-control''"
    "valueAsString example_values finderDepth = ''0''"
    "valueAsString example_values finderNumber = ''1''"
    "valueAsString example_values workerNumber = ''4''"
    "valueAsString example_values includeMetadata = ''true''"
    by (simp_all add: valueAsString_def example_values_def parameter_defs)
  from worker_env_contract [OF e] have
    "env_of (projr (DataTransferS3Stack ec2_context example_values)) ''ECSStack'' =
       Some (finderEnv example_values)"
    and "finderEnv example_values = [(''AWS_DEFAULT_REGION'', Aws_REGION),
         (''JOB_TABLE_NAME'', ''S3TransferTable''),
         (''JOB_QUEUE_NAME'', ''S3TransferQueue''),
         (''SOURCE_TYPE'', valueAsString example_values srcType),
         (''SRC_BUCKET'', valueAsString example_values srcBucket),
         (''SRC_PREFIX'', valueAsString example_values srcPrefix),
         (''SRC_REGION'', valueAsString example_values srcRegion),
         (''SRC_ENDPOINT'', valueAsString example_values srcEndpoint),
         (''SRC_CREDENTIALS'', valueAsString example_values srcCredentials),
         (''SRC_IN_CURRENT_ACCOUNT'', valueAsString example_values srcInCurrentAccount),
         (''DEST_BUCKET'', valueAsString example_values destBucket),
         (''DEST_PREFIX'', valueAsString example_values destPrefix),
         (''DEST_REGION'', valueAsString example_values destRegion),
         (''DEST_CREDENTIALS'', valueAsString example_values destCredentials),
         (''DEST_IN_CURRENT_ACCOUNT'', valueAsString example_values destInCurrentAccount),
         (''FINDER_DEPTH'', valueAsString example_values finderDepth),
         (''FINDER_NUMBER'', valueAsString example_values finderNumber)]"
    and "env_of (projr (DataTransferS3Stack ec2_context example_values)) ''EC2WorkerStack'' =
       Some (workerEnv example_values)"
    and "workerEnv example_values = [(''JOB_TABLE_NAME'', ''S3TransferTable''),
         (''JOB_QUEUE_NAME'', ''S3TransferQueue''),
         (''SOURCE_TYPE'', valueAsString example_values srcType),
         (''SRC_BUCKET'', valueAsString example_values srcBucket),
         (''SRC_PREFIX'', valueAsString example_values srcPrefix),
         (''SRC_REGION'', valueAsString example_values srcRegion),
         (''SRC_ENDPOINT'', valueAsString example_values srcEndpoint),
         (''SRC_CREDENTIALS'', valueAsString example_values srcCredentials),
         (''SRC_IN_CURRENT_ACCOUNT'', valueAsString example_values srcInCurrentAccount),
         (''DEST_BUCKET'', valueAsString example_values destBucket),
         (''DEST_PREFIX'', valueAsString example_values destPrefix),
         (''DEST_REGION'', valueAsString example_values destRegion),
         (''DEST_CREDENTIALS'', valueAsString example_values destCredentials),
         (''DEST_IN_CURRENT_ACCOUNT'', valueAsString example_values destInCurrentAccount),
         (''DEST_STORAGE_CLASS'', valueAsString example_values destStorageClass),
         (''DEST_ACL'', valueAsString example_values destAcl),
         (''FINDER_DEPTH'', valueAsString example_values finderDepth),
         (''FINDER_NUMBER'', valueAsString example_values finderNumber),
         (''WORKER_NUMBER'', valueAsString example_values workerNumber),
         (''INCLUDE_METADATA'', valueAsString example_values includeMetadata)]"
    by (simp_all add: runType_contexts)
  then show ?thesis
    using e by (simp add: v)
qed

subsection \<open>C8: the number of subnets\<close>




subsection \<open>C9: the default runtime mode\<close>

text \<open>
  C9: when the context has no \<^verbatim>\<open>runType\<close>, the runtime mode is EC2: the three capacity
  parameters are declared, and, the capacities being consistent, the composition
  succeeds, the worker fleet is built and the dashboard receives the name of its
  autoscaling group.
\<close>

theorem default_mode_is_fleet:
  assumes "tryGetContext ctx ''runType'' = None"
  shows "runType_of ctx = RunType_EC2
         \<and> maxCapacity \<in> set (declared ctx)
         \<and> minCapacity \<in> set (declared ctx)
         \<and> desiredCapacity \<in> set (declared ctx)
         \<and> (capacity_consistent (ec2Props_of RunType_EC2 vals) \<longrightarrow>
             (\<exists>st. DataTransferS3Stack ctx vals = Inr st
                \<and> parameters st = declared ctx
                \<and> map_of (constructs st) ''EC2WorkerStack'' =
                    Some (Ec2WorkerStackC (fleet vals))
                \<and> fleet_built (Inr st)
                \<and> map_of (constructs st) ''DashboardStack'' =
                    Some (DashboardStackC (dbProps_of RunType_EC2 vals
                           (Some (autoScalingGroupName (workerAsg (fleet vals))))))))"
proof -
  have r: "runType_of ctx = RunType_EC2"
    using assms by (simp add: runType_of_def)
  have d: "maxCapacity \<in> set (declared ctx) \<and> minCapacity \<in> set (declared ctx)
      \<and> desiredCapacity \<in> set (declared ctx)"
    by (simp add: declared_def declare_parameters_parameters r)
  have "\<exists>st. DataTransferS3Stack ctx vals = Inr st
      \<and> parameters st = declared ctx
      \<and> map_of (constructs st) ''EC2WorkerStack'' = Some (Ec2WorkerStackC (fleet vals))
      \<and> fleet_built (Inr st)
      \<and> map_of (constructs st) ''DashboardStack'' =
          Some (DashboardStackC (dbProps_of RunType_EC2 vals
                 (Some (autoScalingGroupName (workerAsg (fleet vals))))))"
    if c: "capacity_consistent (ec2Props_of RunType_EC2 vals)"
  proof -
    have "\<not> failed (DataTransferS3Stack ctx vals)"
      using r c by (simp add: composition_fails_iff)
    then obtain st where st: "DataTransferS3Stack ctx vals = Inr st"
      by (cases "DataTransferS3Stack ctx vals") (simp_all add: failed_def)
    have p: "parameters st = declared ctx"
      using st by (rule composed_parameters)
    have w: "map_of (constructs st) ''EC2WorkerStack'' = Some (Ec2WorkerStackC (fleet vals))"
      by (simp add: composed_constructs [OF st] r)
    have b: "fleet_built (Inr st)"
      by (simp add: fleet_built_def built_def composed_constructs [OF st] r
          event_construct_def)
    have a: "map_of (constructs st) ''DashboardStack'' =
        Some (DashboardStackC (dbProps_of RunType_EC2 vals
               (Some (autoScalingGroupName (workerAsg (fleet vals))))))"
      by (simp add: composed_constructs [OF st] r fleet_def)
    show ?thesis
      using st p w b a by blast
  qed
  then show ?thesis
    using r d by blast
qed

theorem default_mode_is_fleet_witness:
  "tryGetContext no_context ''runType'' = None
   \<and> capacity_consistent (ec2Props_of RunType_EC2 example_values)
   \<and> runType_of no_context = RunType_EC2
   \<and> maxCapacity \<in> set (declared no_context)
   \<and> fleet_built (DataTransferS3Stack no_context example_values)"
proof -
  have c: "tryGetContext no_context ''runType'' = None"
    by (simp add: tryGetContext_def no_context_def)
  have k: "capacity_consistent (ec2Props_of RunType_EC2 example_values)"
    by (rule capacity_values)
  show ?thesis
    using c k default_mode_is_fleet [OF c, of example_values] by auto
qed

subsection \<open>C10: the two queues\<close>

text \<open>
  C10: in every composition that succeeds, the shared resources hold a dead-letter
  queue encrypted with the managed key and a work queue without encryption; the work
  queue retains messages for 14 days, as the dead-letter queue does, and redrives to
  that dead-letter queue.
\<close>

theorem queue_encryption_and_retention:
  assumes "DataTransferS3Stack ctx vals = Inr st"
  shows "\<exists>c. map_of (constructs st) ''Common'' = Some (CommonStackC c)
           \<and> encryption (sqsQueueDLQ c) = Some KMS_MANAGED
           \<and> encrypted (sqsQueueDLQ c)
           \<and> encryption (sqsQueue c) = None
           \<and> \<not> encrypted (sqsQueue c)
           \<and> retentionPeriod (sqsQueue c) = Some (Duration_days 14)
           \<and> retentionPeriod (sqsQueue c) = retentionPeriod (sqsQueueDLQ c)
           \<and> deadLetterQueue (sqsQueue c) = Some (DeadLetterQueue (sqsQueueDLQ c) 5)"
  by (simp add: composed_constructs [OF assms] commonStack_def CommonStack_def
      S3TransferQueue_def S3TransferQueueDLQ_def encrypted_def)

theorem queue_encryption_and_retention_witness:
  "DataTransferS3Stack lambda_context example_values =
     Inr (projr (DataTransferS3Stack lambda_context example_values))
   \<and> (\<exists>c. map_of (constructs (projr (DataTransferS3Stack lambda_context example_values)))
            ''Common'' = Some (CommonStackC c)
         \<and> encrypted (sqsQueueDLQ c) \<and> \<not> encrypted (sqsQueue c)
         \<and> map_option toSeconds (retentionPeriod (sqsQueue c)) = Some 1209600)"
proof -
  have l: "DataTransferS3Stack lambda_context example_values =
      Inr (projr (DataTransferS3Stack lambda_context example_values))"
    by (rule not_failed_Inr) (simp add: composition_fails_iff runType_contexts)
  show ?thesis
    using l queue_encryption_and_retention [OF l]
    by (auto simp add: Duration_days_def)
qed

end
